theory Spec2Isabelle
  imports Main
begin

text \<open>
  The class \<open>SuiClientErrorDecoder\<close> of \<open>src/index.ts\<close>, in the revision that keeps the
  custom tables as fields and builds the table \<open>PATTERN_MATCHERS\<close> in its constructor:
  the regular expressions it uses, the registry operations, \<open>extractErrorString\<close>,
  \<open>extractErrorCode\<close>, \<open>categorizeError\<close>, \<open>findPatternMatch\<close> and \<open>parseError\<close>.
\<close>

section \<open>Strings and characters\<close>

text \<open>
  JavaScript strings are modelled as \<^typ>\<open>string\<close>: sequences of 8-bit code units.
  Within that range the line terminators are LF and CR, the white space of \<open>\s\<close> is
  TAB, LF, VT, FF, CR, SPACE and NBSP, the digits of \<open>\d\<close> are \<open>0\<close>..\<open>9\<close> and the word
  characters of \<open>\b\<close> are the ASCII letters, the digits and the underscore.
\<close>

definition is_digit :: "char \<Rightarrow> bool" where
  "is_digit c = (c \<in> set ''0123456789'')"

definition is_space :: "char \<Rightarrow> bool" where
  "is_space c = (c \<in> set [CHR 0x09, CHR 0x0A, CHR 0x0B, CHR 0x0C, CHR 0x0D, CHR '' '', CHR 0xA0])"

definition is_line_terminator :: "char \<Rightarrow> bool" where
  "is_line_terminator c = (c \<in> set [CHR 0x0A, CHR 0x0D])"

definition lower_letters :: string where
  "lower_letters = ''abcdefghijklmnopqrstuvwxyz''"

definition upper_letters :: string where
  "upper_letters = ''ABCDEFGHIJKLMNOPQRSTUVWXYZ''"

definition is_word_char :: "char \<Rightarrow> bool" where
  "is_word_char c = (c \<in> set lower_letters \<or> c \<in> set upper_letters \<or> is_digit c \<or> c = CHR ''_'')"

text \<open>
  \<open>Canonicalize\<close> of a case-insensitive regular expression without the unicode flag:
  the upper-case form of the code unit. Only the ASCII letters change inside the 8-bit
  range that can meet an ASCII pattern character.
\<close>

definition canonicalize :: "char \<Rightarrow> char" where
  "canonicalize c = (case map_of (zip lower_letters upper_letters) c of Some u \<Rightarrow> u | None \<Rightarrow> c)"

section \<open>Regular expressions\<close>

text \<open>
  Every regular expression of the decoder is a sequence of single-character atoms, each
  under a quantifier, with at most one capture group and (for the symbolic-type scan)
  word-boundary assertions. The lazy forms \<open>+?\<close> and \<open>??\<close> and a second group occur
  only where a registered key brings them into the symbolic-type scan, which asks whether
  there is a match and reads no capture. The matcher below is the backtracking matcher of
  ECMAScript restricted to that shape: a greedy quantifier tries the longest repetition
  first, a lazy one the shortest, and the search tries the start positions from left to
  right.
\<close>

datatype cset = Chars string | Digits | Spaces

datatype atom = Ch char | AnyChar | OneOf "cset list" | NoneOf "cset list"

datatype quant = Once | Optional | Star | Plus | LazyStar | LazyPlus | LazyOptional

datatype item = Atom atom quant | GroupOpen | GroupClose | WordBoundary

record RegExp =
  items :: "item list"
  ignoreCase :: bool

fun in_cset :: "bool \<Rightarrow> char \<Rightarrow> cset \<Rightarrow> bool" where
  "in_cset ic x (Chars cs) = (if ic then canonicalize x \<in> canonicalize ` set cs else x \<in> set cs)"
| "in_cset ic x Digits = is_digit x"
| "in_cset ic x Spaces = is_space x"

fun atom_matches :: "bool \<Rightarrow> atom \<Rightarrow> char \<Rightarrow> bool" where
  "atom_matches ic (Ch c) x = (if ic then canonicalize x = canonicalize c else x = c)"
| "atom_matches ic AnyChar x = (\<not> is_line_terminator x)"
| "atom_matches ic (OneOf cs) x = list_ex (in_cset ic x) cs"
| "atom_matches ic (NoneOf cs) x = (\<not> list_ex (in_cset ic x) cs)"

definition at_word_boundary :: "char option \<Rightarrow> string \<Rightarrow> bool" where
  "at_word_boundary prev s =
     ((case prev of None \<Rightarrow> False | Some c \<Rightarrow> is_word_char c) \<noteq>
      (case s of [] \<Rightarrow> False | c # _ \<Rightarrow> is_word_char c))"

text \<open>
  \<open>rmatch ic its prev s opened cap\<close> matches the items \<open>its\<close> at the front of \<open>s\<close>, where
  \<open>prev\<close> is the character before \<open>s\<close>, \<open>opened\<close> the input at the point where the capture
  group was entered and \<open>cap\<close> the text captured so far. The result is \<open>None\<close> when no
  alternative of the backtracking search succeeds, and \<open>Some cap\<close> with the capture of the
  first successful alternative otherwise (\<open>cap = None\<close>: the group did not take part).
\<close>

fun rmatch :: "bool \<Rightarrow> item list \<Rightarrow> char option \<Rightarrow> string \<Rightarrow> string option \<Rightarrow> string option
    \<Rightarrow> string option option" where
  "rmatch ic [] prev s opened cap = Some cap"
| "rmatch ic (GroupOpen # r) prev s opened cap = rmatch ic r prev s (Some s) cap"
| "rmatch ic (GroupClose # r) prev s opened cap =
     rmatch ic r prev s opened
       (case opened of None \<Rightarrow> cap | Some s0 \<Rightarrow> Some (take (length s0 - length s) s0))"
| "rmatch ic (WordBoundary # r) prev s opened cap =
     (if at_word_boundary prev s then rmatch ic r prev s opened cap else None)"
| "rmatch ic (Atom a Once # r) prev [] opened cap = None"
| "rmatch ic (Atom a Once # r) prev (x # xs) opened cap =
     (if atom_matches ic a x then rmatch ic r (Some x) xs opened cap else None)"
| "rmatch ic (Atom a Optional # r) prev [] opened cap = rmatch ic r prev [] opened cap"
| "rmatch ic (Atom a Optional # r) prev (x # xs) opened cap =
     (if atom_matches ic a x
      then (case rmatch ic r (Some x) xs opened cap of
              Some res \<Rightarrow> Some res
            | None \<Rightarrow> rmatch ic r prev (x # xs) opened cap)
      else rmatch ic r prev (x # xs) opened cap)"
| "rmatch ic (Atom a Star # r) prev [] opened cap = rmatch ic r prev [] opened cap"
| "rmatch ic (Atom a Star # r) prev (x # xs) opened cap =
     (if atom_matches ic a x
      then (case rmatch ic (Atom a Star # r) (Some x) xs opened cap of
              Some res \<Rightarrow> Some res
            | None \<Rightarrow> rmatch ic r prev (x # xs) opened cap)
      else rmatch ic r prev (x # xs) opened cap)"
| "rmatch ic (Atom a Plus # r) prev [] opened cap = None"
| "rmatch ic (Atom a Plus # r) prev (x # xs) opened cap =
     (if atom_matches ic a x then rmatch ic (Atom a Star # r) (Some x) xs opened cap else None)"
| "rmatch ic (Atom a LazyStar # r) prev [] opened cap = rmatch ic r prev [] opened cap"
| "rmatch ic (Atom a LazyStar # r) prev (x # xs) opened cap =
     (case rmatch ic r prev (x # xs) opened cap of
        Some res \<Rightarrow> Some res
      | None \<Rightarrow>
          (if atom_matches ic a x then rmatch ic (Atom a LazyStar # r) (Some x) xs opened cap
           else None))"
| "rmatch ic (Atom a LazyPlus # r) prev [] opened cap = None"
| "rmatch ic (Atom a LazyPlus # r) prev (x # xs) opened cap =
     (if atom_matches ic a x then rmatch ic (Atom a LazyStar # r) (Some x) xs opened cap else None)"
| "rmatch ic (Atom a LazyOptional # r) prev [] opened cap = rmatch ic r prev [] opened cap"
| "rmatch ic (Atom a LazyOptional # r) prev (x # xs) opened cap =
     (case rmatch ic r prev (x # xs) opened cap of
        Some res \<Rightarrow> Some res
      | None \<Rightarrow> (if atom_matches ic a x then rmatch ic r (Some x) xs opened cap else None))"

text \<open>The unanchored search of \<open>RegExp.prototype.exec\<close> from index 0 (no \<open>g\<close> or \<open>y\<close> flag).\<close>

fun rsearch :: "bool \<Rightarrow> item list \<Rightarrow> char option \<Rightarrow> string \<Rightarrow> string option option" where
  "rsearch ic its prev [] = rmatch ic its prev [] None None"
| "rsearch ic its prev (x # xs) =
     (case rmatch ic its prev (x # xs) None None of
        Some res \<Rightarrow> Some res
      | None \<Rightarrow> rsearch ic its (Some x) xs)"

text \<open>
  \<open>str.match(re)\<close> for a regular expression without the \<open>g\<close> flag: \<open>None\<close> is \<open>null\<close>,
  \<open>Some cap\<close> a match array whose element 1 is \<open>cap\<close> (\<open>None\<close>: \<open>undefined\<close>).
  \<open>re.test(str)\<close> is whether that result is not \<open>null\<close>.
\<close>

definition String_match :: "string \<Rightarrow> RegExp \<Rightarrow> string option option" where
  "String_match s re = rsearch (ignoreCase re) (items re) None s"

definition RegExp_test :: "RegExp \<Rightarrow> string \<Rightarrow> bool" where
  "RegExp_test re s = (String_match s re \<noteq> None)"

definition lit :: "string \<Rightarrow> item list" where
  "lit s = map (\<lambda>c. Atom (Ch c) Once) s"

definition digits_group :: "item list" where
  "digits_group = [GroupOpen, Atom (OneOf [Digits]) Plus, GroupClose]"

definition spaces :: "quant \<Rightarrow> item" where
  "spaces q = Atom (OneOf [Spaces]) q"

definition rx :: "item list \<Rightarrow> RegExp" where
  "rx its = \<lparr>items = its, ignoreCase = False\<rparr>"

definition rxi :: "item list \<Rightarrow> RegExp" where
  "rxi its = \<lparr>items = its, ignoreCase = True\<rparr>"

text \<open>\<open>s.includes(t)\<close>: \<open>t\<close> occurs in \<open>s\<close> as a contiguous substring.\<close>

fun String_includes :: "string \<Rightarrow> string \<Rightarrow> bool" where
  "String_includes [] t = (t = [])"
| "String_includes (x # xs) t = (take (length t) (x # xs) = t \<or> String_includes xs t)"

section \<open>Numbers\<close>

text \<open>
  Error codes are JavaScript numbers; the model keeps the mathematical integer, which is
  what \<open>parseInt\<close> yields for every digit string below \<open>2^53\<close>. \<open>parseInt10 s\<close> is
  \<open>parseInt(s, 10)\<close>: leading white space is skipped, a sign is read, then the longest
  run of digits; \<open>None\<close> is \<open>NaN\<close>.
\<close>

definition digit_val :: "char \<Rightarrow> int" where
  "digit_val c = (case map_of (zip ''0123456789'' [0, 1, 2, 3, 4, 5, 6, 7, 8, 9]) c of
                    Some d \<Rightarrow> d | None \<Rightarrow> 0)"

definition digits_value :: "string \<Rightarrow> int" where
  "digits_value ds = foldl (\<lambda>acc d. 10 * acc + digit_val d) 0 ds"

definition parseInt10 :: "string \<Rightarrow> int option" where
  "parseInt10 s =
     (let t = dropWhile is_space s;
          neg = (case t of [] \<Rightarrow> False | c # _ \<Rightarrow> c = CHR ''-'');
          u = (case t of [] \<Rightarrow> [] | c # r \<Rightarrow> if c = CHR ''-'' \<or> c = CHR ''+'' then r else t);
          ds = takeWhile is_digit u
      in if ds = [] then None
         else Some (if neg then - digits_value ds else digits_value ds))"

text \<open>
  \<open>String(n)\<close> for an integer \<open>n\<close>, as a template literal renders it (JavaScript
  switches to exponent notation from \<open>10^21\<close> on; the model keeps the digits).
\<close>

definition digit_char :: "int \<Rightarrow> char" where
  "digit_char d = (case map_of (zip [0, 1, 2, 3, 4, 5, 6, 7, 8, 9] ''0123456789'') (d mod 10) of
                     Some c \<Rightarrow> c | None \<Rightarrow> CHR ''0'')"

function show_digits :: "int \<Rightarrow> string" where
  "show_digits n = (if n < 10 then [digit_char n] else show_digits (n div 10) @ [digit_char n])"
  by pat_completeness auto
termination
  by (relation "measure nat") auto

declare show_digits.simps [simp del]

definition show_int :: "int \<Rightarrow> string" where
  "show_int i = (if i < 0 then CHR ''-'' # show_digits (- i) else show_digits i)"

section \<open>The decoder's data\<close>

datatype category = move_abort | transaction | sui_system | unknown

text \<open>
  \<open>extractErrorCode\<close>'s pattern list, in the source's order. Each entry is the
  regular-expression literal of the source written out item by item.
\<close>

definition code_patterns :: "RegExp list" where
  \<open>code_patterns =
    [ \<comment> \<open>\<open>/MoveAbort\([^,)]*,\s*(\d+)\)/\<close>\<close>
      rx (lit ''MoveAbort('' @ [Atom (NoneOf [Chars '',)'']) Star] @ lit '','' @ [spaces Star]
          @ digits_group @ lit '')''),
      \<comment> \<open>\<open>/MoveAbort\([^)]+\)\s*,?\s*(\d+)\)/\<close>\<close>
      rx (lit ''MoveAbort('' @ [Atom (NoneOf [Chars '')'']) Plus] @ lit '')''
          @ [spaces Star, Atom (Ch CHR '','') Optional, spaces Star] @ digits_group @ lit '')''),
      \<comment> \<open>\<open>/MoveAbort.*?(\d+)\)/\<close>\<close>
      rx (lit ''MoveAbort'' @ [Atom AnyChar LazyStar] @ digits_group @ lit '')''),
      \<comment> \<open>\<open>/}, (\d+)\) in command/\<close>\<close>
      rx (lit ''}, '' @ digits_group @ lit '') in command''),
      \<comment> \<open>\<open>/abort_code:\s*(\d+)/i\<close>\<close>
      rxi (lit ''abort_code:'' @ [spaces Star] @ digits_group),
      \<comment> \<open>\<open>/error_code:\s*(\d+)/i\<close>\<close>
      rxi (lit ''error_code:'' @ [spaces Star] @ digits_group),
      \<comment> \<open>\<open>/CetusError\((\d+)\)/\<close>\<close>
      rx (lit ''CetusError('' @ digits_group @ lit '')''),
      \<comment> \<open>\<open>/PoolCreationError\((\d+)\)/\<close>\<close>
      rx (lit ''PoolCreationError('' @ digits_group @ lit '')''),
      \<comment> \<open>\<open>/InsufficientLiquidity\((\d+)\)/\<close>\<close>
      rx (lit ''InsufficientLiquidity('' @ digits_group @ lit '')''),
      \<comment> \<open>\<open>/LaunchpadError\((\d+)\)/\<close>\<close>
      rx (lit ''LaunchpadError('' @ digits_group @ lit '')''),
      \<comment> \<open>\<open>/Error\s*Code\s*(\d+)/i\<close>\<close>
      rxi (lit ''Error'' @ [spaces Star] @ lit ''Code'' @ [spaces Star] @ digits_group),
      \<comment> \<open>\<open>/ErrorCode:?\s*(\d+)/i\<close>\<close>
      rxi (lit ''ErrorCode'' @ [Atom (Ch CHR '':'') Optional, spaces Star] @ digits_group),
      \<comment> \<open>\<open>/code[:\s]*(\d+)/i\<close>\<close>
      rxi (lit ''code'' @ [Atom (OneOf [Chars '':'', Spaces]) Star] @ digits_group),
      \<comment> \<open>\<open>/error[:\s]*(\d+)/i\<close>\<close>
      rxi (lit ''error'' @ [Atom (OneOf [Chars '':'', Spaces]) Star] @ digits_group),
      \<comment> \<open>\<open>/with\s+code\s+(\d+)/i\<close>\<close>
      rxi (lit ''with'' @ [spaces Plus] @ lit ''code'' @ [spaces Plus] @ digits_group),
      \<comment> \<open>\<open>/error\s+(\d+)/i\<close>\<close>
      rxi (lit ''error'' @ [spaces Plus] @ digits_group) ]\<close>

text \<open>
  The loop of \<open>extractErrorCode\<close>: the first pattern that matches with a non-empty group 1
  whose \<open>parseInt\<close> is a number \<open>\<ge> 0\<close> decides; \<open>None\<close> is \<open>null\<close>.
\<close>

fun extract_loop :: "RegExp list \<Rightarrow> string \<Rightarrow> int option" where
  "extract_loop [] errorString = None"
| "extract_loop (pattern # rest) errorString =
     (case String_match errorString pattern of
        Some (Some m1) \<Rightarrow>
          (if m1 \<noteq> []
           then (case parseInt10 m1 of
                   Some code \<Rightarrow> if code \<ge> 0 then Some code else extract_loop rest errorString
                 | None \<Rightarrow> extract_loop rest errorString)
           else extract_loop rest errorString)
      | _ \<Rightarrow> extract_loop rest errorString)"

definition extractErrorCode :: "string \<Rightarrow> int option" where
  "extractErrorCode errorString = extract_loop code_patterns errorString"

definition categorizeError :: "int \<Rightarrow> string \<Rightarrow> category" where
  "categorizeError errorCode errorString =
     (if errorCode \<ge> 1000 \<and> errorCode \<le> 1999 then move_abort
      else if errorCode \<ge> 2000 \<and> errorCode \<le> 2999 then sui_system
      else if errorCode \<ge> 3000 then sui_system
      else if errorCode \<ge> 1 \<and> errorCode \<le> 999 then move_abort
      else if String_includes errorString ''Transaction'' \<or> String_includes errorString ''Signature''
      then transaction
      else move_abort)"

section \<open>Objects with string keys\<close>

text \<open>
  A \<open>TransactionErrorMap\<close> is represented by the sequence of property definitions that
  built the object, as an object literal read from left to right: a later definition of a
  key replaces the value and keeps the key's position. \<open>obj[k]\<close> is the last value
  defined for \<open>k\<close>; \<open>Object.entries\<close> lists the keys that are array indices in
  ascending numeric order, then the other keys in the order of their first definition.
\<close>

type_synonym TransactionErrorMap = "(string \<times> string) list"

definition lookup :: "TransactionErrorMap \<Rightarrow> string \<Rightarrow> string option" where
  "lookup obj k = map_of (rev obj) k"

fun put :: "string \<Rightarrow> string \<Rightarrow> TransactionErrorMap \<Rightarrow> TransactionErrorMap" where
  "put k v [] = [(k, v)]"
| "put k v ((k', v') # rest) = (if k' = k then (k, v) # rest else (k', v') # put k v rest)"

definition own_properties :: "TransactionErrorMap \<Rightarrow> (string \<times> string) list" where
  "own_properties obj = foldl (\<lambda>acc (k, v). put k v acc) [] obj"

definition array_index :: "string \<Rightarrow> int option" where
  "array_index k =
     (if k \<noteq> [] \<and> list_all is_digit k \<and> (k = ''0'' \<or> hd k \<noteq> CHR ''0'')
         \<and> digits_value k < 4294967295
      then Some (digits_value k) else None)"

definition Object_entries :: "TransactionErrorMap \<Rightarrow> (string \<times> string) list" where
  "Object_entries obj =
     (let ps = own_properties obj
      in sort_key (\<lambda>(k, v). case array_index k of Some i \<Rightarrow> i | None \<Rightarrow> 0)
           (filter (\<lambda>(k, v). array_index k \<noteq> None) ps)
         @ filter (\<lambda>(k, v). array_index k = None) ps)"

text \<open>
  The object literal \<open>{ ...a, ...b }\<close>: the entries of \<open>a\<close> are defined on a fresh object,
  then the entries of \<open>b\<close>.
\<close>

definition spread2 :: "TransactionErrorMap \<Rightarrow> TransactionErrorMap \<Rightarrow> TransactionErrorMap" where
  "spread2 a b = Object_entries a @ Object_entries b"

text \<open>
  An \<open>ErrorCodeMap\<close> is only ever read by key, so it is a finite map from the numeric key
  to the message; \<open>{ ...a, ...b }\<close> is \<open>a ++ b\<close>.
\<close>

type_synonym ErrorCodeMap = "int \<rightharpoonup> string"

section \<open>JavaScript values and completions\<close>

text \<open>
  The argument of \<open>parseError\<close> has type \<open>any\<close>. Numbers are the integers (\<open>NaN\<close>, the
  infinities and fractions are left out). Objects live in a heap, so that an object can
  refer to itself; of an object the model keeps what the decoder can observe: whether
  \<open>typeof\<close> is \<open>"function"\<close>, the outcome of reading a property other than \<open>toString\<close>
  (through the prototype chain; a getter may throw), the outcome of calling its \<open>toString\<close>
  member when that member is a function (\<open>None\<close> when it is not), and the outcome of
  \<open>String(obj)\<close>.
\<close>

datatype jsval =
    JNull | JUndefined | JString string | JNumber int | JBoolean bool | JBigInt int
  | JSymbol string | JObject nat

datatype 'a outcome = Returns 'a | Raises

record jsobj =
  is_function :: bool
  properties :: "string \<rightharpoonup> jsval outcome"
  toString_method :: "jsval outcome option"
  String_coercion :: "string outcome"

type_synonym heap = "nat \<Rightarrow> jsobj"

datatype exn = SyntaxError | TypeError | UserException

text \<open>
  A call completes normally, throws, or leaves the fragment of JavaScript that this theory
  models (\<open>Unmodelled\<close>); no theorem below draws a conclusion from the last.
\<close>

datatype 'a completion = Normal 'a | Throw exn | Unmodelled

text \<open>\<open>v.message\<close> and \<open>v.cause\<close> for a value that is neither \<open>null\<close> nor \<open>undefined\<close>.\<close>

definition Get :: "heap \<Rightarrow> jsval \<Rightarrow> string \<Rightarrow> jsval completion" where
  "Get h v p =
     (case v of
        JObject a \<Rightarrow>
          (case properties (h a) p of
             None \<Rightarrow> Normal JUndefined
           | Some (Returns x) \<Rightarrow> Normal x
           | Some Raises \<Rightarrow> Throw UserException)
      | JNull \<Rightarrow> Throw TypeError
      | JUndefined \<Rightarrow> Throw TypeError
      | _ \<Rightarrow> Normal JUndefined)"

text \<open>
  \<open>String(v)\<close> for a primitive value, and \<open>String(v)\<close> inside the \<open>try\<close> block of
  \<open>extractErrorString\<close>, where a throw yields \<open>""\<close>.
\<close>

definition String_of_primitive :: "jsval \<Rightarrow> string" where
  "String_of_primitive v =
     (case v of
        JNull \<Rightarrow> ''null''
      | JUndefined \<Rightarrow> ''undefined''
      | JString s \<Rightarrow> s
      | JNumber n \<Rightarrow> show_int n
      | JBoolean b \<Rightarrow> (if b then ''true'' else ''false'')
      | JBigInt n \<Rightarrow> show_int n
      | JSymbol d \<Rightarrow> ''Symbol('' @ d @ '')''
      | JObject a \<Rightarrow> [])"

definition String_or_empty :: "heap \<Rightarrow> jsval \<Rightarrow> string" where
  "String_or_empty h v =
     (case v of
        JObject a \<Rightarrow> (case String_coercion (h a) of Returns s \<Rightarrow> s | Raises \<Rightarrow> [])
      | _ \<Rightarrow> String_of_primitive v)"

definition truthy_string :: "jsval \<Rightarrow> bool" where
  "truthy_string v = (case v of JString s \<Rightarrow> s \<noteq> [] | _ \<Rightarrow> False)"

definition nullish :: "jsval \<Rightarrow> bool" where
  "nullish v = (v = JNull \<or> v = JUndefined)"

definition extractErrorString :: "heap \<Rightarrow> jsval \<Rightarrow> jsval completion" where
  "extractErrorString h error =
     (if error = JNull \<or> error = JUndefined then Normal (JString [])
      else case error of
        JString s \<Rightarrow> Normal error
      | JObject a \<Rightarrow>
          (if is_function (h a) then Normal (JString (String_or_empty h error))
           else case Get h error ''message'' of
             Throw e \<Rightarrow> Throw e
           | Unmodelled \<Rightarrow> Unmodelled
           | Normal m \<Rightarrow>
               if truthy_string m then Normal m
               else case Get h error ''cause'' of
                 Throw e \<Rightarrow> Throw e
               | Unmodelled \<Rightarrow> Unmodelled
               | Normal c \<Rightarrow>
                   (case (if nullish c then Normal JUndefined else Get h c ''message'') of
                      Throw e \<Rightarrow> Throw e
                    | Unmodelled \<Rightarrow> Unmodelled
                    | Normal cm \<Rightarrow>
                        if truthy_string cm then Normal cm
                        else case toString_method (h a) of
                          Some Raises \<Rightarrow> Throw UserException
                        | Some (Returns stringified) \<Rightarrow>
                            if stringified \<noteq> JString ''[object Object]'' then Normal stringified
                            else Normal (JString (String_or_empty h error))
                        | None \<Rightarrow> Normal (JString (String_or_empty h error))))
      | _ \<Rightarrow> Normal (JString (String_or_empty h error)))"

section \<open>The decoder\<close>

record ParsedErrorBase =
  code :: "int option"
  errorType :: "string option"
  message :: string
  isKnownError :: bool
  category :: category

record ParsedError = ParsedErrorBase +
  originalError :: jsval

record PatternMatcher =
  pattern :: RegExp
  matcher_category :: category
  matcher_message :: string
  matcher_errorType :: "string option"

record SuiErrorDecoderOptions =
  opt_customErrorCodes :: "ErrorCodeMap option"
  opt_customTransactionErrors :: "TransactionErrorMap option"
  opt_includeDefaults :: "bool option"

record SuiClientErrorDecoder =
  errorCodes :: ErrorCodeMap
  transactionErrors :: TransactionErrorMap
  customErrorCodes :: ErrorCodeMap
  customTransactionErrors :: TransactionErrorMap
  PATTERN_MATCHERS :: "PatternMatcher list"

text \<open>
  The template literal \<open>`Transaction Error (T): ${this.transactionErrors.T}`\<close>, evaluated
  against the table \<open>te\<close>; a missing property renders as \<open>undefined\<close>.
\<close>

definition transaction_template :: "TransactionErrorMap \<Rightarrow> string \<Rightarrow> string" where
  "transaction_template te t =
     ''Transaction Error ('' @ t @ ''): '' @ (case lookup te t of Some m \<Rightarrow> m | None \<Rightarrow> ''undefined'')"

definition fixed_matcher :: "RegExp \<Rightarrow> string \<Rightarrow> category \<Rightarrow> PatternMatcher" where
  "fixed_matcher re msg cat =
     \<lparr>pattern = re, matcher_category = cat, matcher_message = msg, matcher_errorType = None\<rparr>"

definition transaction_matcher :: "TransactionErrorMap \<Rightarrow> RegExp \<Rightarrow> string \<Rightarrow> PatternMatcher" where
  "transaction_matcher te re t =
     \<lparr>pattern = re, matcher_category = transaction, matcher_message = transaction_template te t,
      matcher_errorType = Some t\<rparr>"

definition any_star :: item where
  "any_star = Atom AnyChar Star"

text \<open>
  The array literal that the constructor assigns to \<open>PATTERN_MATCHERS\<close>, evaluated with
  \<open>this.transactionErrors = te\<close>.
\<close>

definition build_PATTERN_MATCHERS :: "TransactionErrorMap \<Rightarrow> PatternMatcher list" where
  "build_PATTERN_MATCHERS te =
    [ fixed_matcher (rx (lit ''InsufficientGas''))
        ''Insufficient gas for transaction. Please increase gas budget.'' sui_system,
      fixed_matcher (rx (lit ''ObjectNotFound''))
        ''Required object not found. Please check object IDs.'' sui_system,
      fixed_matcher (rx (lit ''InvalidObjectOwner''))
        ''Invalid object ownership. Please verify permissions.'' sui_system,
      fixed_matcher (rx (lit ''PackageNotFound''))
        ''Smart contract package not found. Please check package deployment.'' sui_system,
      fixed_matcher (rx (lit ''TransactionExpired''))
        ''Transaction expired. Please try again.'' transaction,
      fixed_matcher (rx (lit ''InvalidSignature''))
        ''Invalid transaction signature.'' transaction,
      fixed_matcher (rxi (lit ''Unexpected deserialization error''))
        ''Unexpected deserialization error'' sui_system,
      transaction_matcher te (rxi (lit ''insufficient'' @ [any_star] @ lit ''gas''))
        ''INSUFFICIENT_GAS'',
      transaction_matcher te
        (rxi (lit ''invalid'' @ [any_star] @ lit ''gas'' @ [any_star] @ lit ''object''))
        ''INVALID_GAS_OBJECT'',
      transaction_matcher te
        (rxi (lit ''object'' @ [any_star] @ lit ''too'' @ [any_star] @ lit ''big''))
        ''OBJECT_TOO_BIG'',
      transaction_matcher te
        (rxi (lit ''package'' @ [any_star] @ lit ''too'' @ [any_star] @ lit ''big''))
        ''PACKAGE_TOO_BIG'',
      transaction_matcher te (rxi (lit ''circular'' @ [any_star] @ lit ''ownership''))
        ''CIRCULAR_OBJECT_OWNERSHIP'',
      transaction_matcher te
        (rxi (lit ''insufficient'' @ [any_star] @ lit ''coin'' @ [any_star] @ lit ''balance''))
        ''INSUFFICIENT_COIN_BALANCE'',
      transaction_matcher te
        (rxi (lit ''function'' @ [any_star] @ lit ''not'' @ [any_star] @ lit ''found''))
        ''FUNCTION_NOT_FOUND'',
      transaction_matcher te (rxi (lit ''move'' @ [any_star] @ lit ''abort''))
        ''MOVE_ABORT'',
      fixed_matcher (rx (lit ''EInvalidTickRange''))
        ''Error: Invalid tick range for liquidity pool'' move_abort,
      fixed_matcher (rx (lit ''EInvalidLiquidity''))
        ''Error: Invalid liquidity amount'' move_abort,
      fixed_matcher (rx (lit ''EInvalidTickSpacing''))
        ''Error: Invalid tick spacing - must be 100, 500, or 3000'' move_abort,
      fixed_matcher (rx (lit ''ETickNotAligned''))
        ''Error: Tick not aligned with tick spacing'' move_abort,
      fixed_matcher (rx (lit ''EInsufficientLiquidity''))
        ''Error: Insufficient liquidity for pool creation'' move_abort,
      fixed_matcher (rx (lit ''EInvalidPrice''))
        ''Error: Invalid price for pool creation'' move_abort,
      fixed_matcher (rx (lit ''EInvalidPhase''))
        ''Error: Invalid phase for operation'' move_abort,
      fixed_matcher (rx (lit ''EUnauthorized''))
        ''Error: Unauthorized access'' move_abort ]"

text \<open>
  The constructor. \<open>DEFAULT_SUI_ERROR_CODES\<close> and \<open>TRANSACTION_ERROR_CODES\<close> are imported
  from the module \<open>defaultErrors\<close>; they are parameters here, and every theorem below
  holds for all tables. A missing option takes its default: \<open>{}\<close>, \<open>{}\<close> and \<open>true\<close>.
\<close>

definition constructor ::
    "ErrorCodeMap \<Rightarrow> TransactionErrorMap \<Rightarrow> SuiErrorDecoderOptions \<Rightarrow> SuiClientErrorDecoder" where
  "constructor DEFAULT_SUI_ERROR_CODES TRANSACTION_ERROR_CODES options =
     (let customCodes = (case opt_customErrorCodes options of Some c \<Rightarrow> c | None \<Rightarrow> Map.empty);
          customTypes = (case opt_customTransactionErrors options of Some c \<Rightarrow> c | None \<Rightarrow> []);
          includeDefaults = (case opt_includeDefaults options of Some b \<Rightarrow> b | None \<Rightarrow> True);
          codes = (if includeDefaults then DEFAULT_SUI_ERROR_CODES ++ customCodes else customCodes);
          types = (if includeDefaults then spread2 TRANSACTION_ERROR_CODES customTypes
                   else customTypes)
      in \<lparr>errorCodes = codes, transactionErrors = types, customErrorCodes = customCodes,
          customTransactionErrors = customTypes,
          PATTERN_MATCHERS = build_PATTERN_MATCHERS types\<rparr>)"

definition addErrorCodes :: "ErrorCodeMap \<Rightarrow> SuiClientErrorDecoder \<Rightarrow> SuiClientErrorDecoder" where
  "addErrorCodes newCodes d =
     d\<lparr>customErrorCodes := customErrorCodes d ++ newCodes, errorCodes := errorCodes d ++ newCodes\<rparr>"

definition addTransactionErrors ::
    "TransactionErrorMap \<Rightarrow> SuiClientErrorDecoder \<Rightarrow> SuiClientErrorDecoder" where
  "addTransactionErrors newErrors d =
     d\<lparr>customTransactionErrors := spread2 (customTransactionErrors d) newErrors,
       transactionErrors := spread2 (transactionErrors d) newErrors\<rparr>"

definition updateDefaultErrorCodes ::
    "ErrorCodeMap \<Rightarrow> SuiClientErrorDecoder \<Rightarrow> SuiClientErrorDecoder" where
  "updateDefaultErrorCodes defaultCodes d = d\<lparr>errorCodes := defaultCodes ++ customErrorCodes d\<rparr>"

definition updateDefaultTransactionErrors ::
    "TransactionErrorMap \<Rightarrow> SuiClientErrorDecoder \<Rightarrow> SuiClientErrorDecoder" where
  "updateDefaultTransactionErrors defaultTransactionErrors d =
     d\<lparr>transactionErrors := spread2 defaultTransactionErrors (customTransactionErrors d)\<rparr>"

definition getErrorCodes :: "SuiClientErrorDecoder \<Rightarrow> ErrorCodeMap" where
  "getErrorCodes d = Map.empty ++ errorCodes d"

definition getTransactionErrors :: "SuiClientErrorDecoder \<Rightarrow> TransactionErrorMap" where
  "getTransactionErrors d = Object_entries (transactionErrors d)"

definition isKnownErrorCode :: "SuiClientErrorDecoder \<Rightarrow> int \<Rightarrow> bool" where
  "isKnownErrorCode d c = (c \<in> dom (errorCodes d))"

text \<open>
  \<open>errorType in this.transactionErrors\<close> also finds the properties that an object literal
  inherits from \<open>Object.prototype\<close>.
\<close>

definition Object_prototype_keys :: "string list" where
  "Object_prototype_keys =
     [''constructor'', ''__defineGetter__'', ''__defineSetter__'', ''hasOwnProperty'',
      ''__lookupGetter__'', ''__lookupSetter__'', ''isPrototypeOf'', ''propertyIsEnumerable'',
      ''toString'', ''valueOf'', ''__proto__'', ''toLocaleString'']"

definition isKnownTransactionError :: "SuiClientErrorDecoder \<Rightarrow> string \<Rightarrow> bool" where
  "isKnownTransactionError d t =
     (lookup (transactionErrors d) t \<noteq> None \<or> t \<in> set Object_prototype_keys)"

text \<open>\<open>x || null\<close> for a string or \<open>undefined\<close>: the empty string is falsy.\<close>

definition or_null :: "string option \<Rightarrow> string option" where
  "or_null x = (case x of Some m \<Rightarrow> if m \<noteq> [] then Some m else None | None \<Rightarrow> None)"

definition getErrorMessage :: "SuiClientErrorDecoder \<Rightarrow> int \<Rightarrow> string option" where
  "getErrorMessage d c = or_null (errorCodes d c)"

section \<open>Matching and parsing\<close>

text \<open>
  \<open>new RegExp(`\\b${errorType}\\b`)\<close>: the registered key becomes regular-expression
  source text between two word boundaries, and the constructor throws a \<open>SyntaxError\<close>
  when that text is not a pattern (the grammar is that of ECMAScript with Annex B, no
  flag). The model reads the keys that are written with ordinary characters, the dot, the
  quantifiers \<open>*\<close>, \<open>+\<close>, \<open>?\<close> (each with its lazy form), character classes and capture
  groups that carry no quantifier; the brackets \<open>]\<close> and \<open>}\<close> on their own are ordinary
  characters.
  \<^item> A key without any syntax character is literal text.
  \<^item> A quantifier at the start of the key, at the start of a group or after another
    quantifier has nothing to repeat: \<open>SyntaxError\<close>.
  \<^item> A class runs from \<open>[\<close> to the next \<open>]\<close>; a leading \<open>^\<close> negates it, \<open>a-b\<close> is the range
    of the characters from \<open>a\<close> to \<open>b\<close>, a \<open>SyntaxError\<close> when \<open>b\<close> comes before \<open>a\<close>. In a
    key without backslash a \<open>[\<close> that no \<open>]\<close> follows opens a class that never ends:
    \<open>SyntaxError\<close>.
  \<^item> Outside a class every parenthesis is a group delimiter, so a \<open>)\<close> that closes
    nothing and a group that is not closed are a \<open>SyntaxError\<close>.
  \<^item> Keys with a backslash, \<open>{\<close>, \<open>|\<close>, \<open>^\<close> or \<open>$\<close> outside a class, a group that opens
    with \<open>(?\<close> or a group under a quantifier are not modelled, except where one of the
    two errors that need no parsing (the class that never ends, the unbalanced
    parentheses of a key without \<open>[\<close>) is present.
\<close>

definition syntax_chars :: string where
  "syntax_chars = [CHR ''^'', CHR ''$'', CHR 0x5C, CHR ''.'', CHR ''*'', CHR ''+'', CHR ''?'',
                   CHR ''('', CHR '')'', CHR ''['', CHR '']'', CHR ''{'', CHR ''}'', CHR ''|'']"

definition regex_safe :: "string \<Rightarrow> bool" where
  "regex_safe k = list_all (\<lambda>c. c \<notin> set syntax_chars) k"

fun balanced :: "nat \<Rightarrow> string \<Rightarrow> bool" where
  "balanced depth [] = (depth = 0)"
| "balanced depth (c # cs) =
     (if c = CHR ''('' then balanced (Suc depth) cs
      else if c = CHR '')'' then (depth > 0 \<and> balanced (depth - 1) cs)
      else balanced depth cs)"

definition unbalanced_key :: "string \<Rightarrow> bool" where
  "unbalanced_key k = (CHR 0x5C \<notin> set k \<and> CHR ''['' \<notin> set k \<and> \<not> balanced 0 k)"

definition unterminated_class :: "string \<Rightarrow> bool" where
  "unterminated_class k =
     (CHR ''['' \<in> set k \<and> CHR '']'' \<notin> set (dropWhile (\<lambda>c. c \<noteq> CHR ''['') k))"

definition quantifier_char :: "char \<Rightarrow> bool" where
  "quantifier_char c = (c \<in> set ''*+?'')"

definition key_atom :: "char \<Rightarrow> atom" where
  "key_atom c = (if c = CHR ''.'' then AnyChar else Ch c)"

definition quantifier :: "char \<Rightarrow> bool \<Rightarrow> quant" where
  "quantifier q lazy =
     (if q = CHR ''*'' then (if lazy then LazyStar else Star)
      else if q = CHR ''+'' then (if lazy then LazyPlus else Plus)
      else (if lazy then LazyOptional else Optional))"

text \<open>
  What follows an atom: at most one quantifier, then at most one \<open>?\<close> that makes the
  quantifier lazy. The result is the quantifier and the rest of the key.
\<close>

definition take_quantifier :: "string \<Rightarrow> quant \<times> string" where
  "take_quantifier s =
     (case s of
        [] \<Rightarrow> (Once, [])
      | q # r \<Rightarrow>
          if quantifier_char q
          then (case r of
                  [] \<Rightarrow> (quantifier q False, [])
                | l # r' \<Rightarrow>
                    if l = CHR ''?'' then (quantifier q True, r') else (quantifier q False, r))
          else (Once, s))"

text \<open>
  The text of a class between its brackets, after the \<open>^\<close> if there is one: \<open>a-b\<close> with a
  character on both sides is a range, any other character stands for itself. \<open>None\<close>: a
  range is out of order.
\<close>

definition char_range :: "char \<Rightarrow> char \<Rightarrow> string" where
  "char_range a b = map char_of [of_char a ..< Suc (of_char b)]"

fun class_ranges :: "string \<Rightarrow> string option" where
  "class_ranges (a # b # c # r) =
     (if b = CHR ''-''
      then (if (of_char a :: nat) \<le> of_char c
            then map_option ((@) (char_range a c)) (class_ranges r)
            else None)
      else map_option ((#) a) (class_ranges (b # c # r)))"
| "class_ranges cs = Some cs"

definition class_atom :: "string \<Rightarrow> atom option" where
  "class_atom body =
     (case body of
        [] \<Rightarrow> Some (OneOf [Chars []])
      | c # cs \<Rightarrow>
          if c = CHR ''^'' then map_option (\<lambda>xs. NoneOf [Chars xs]) (class_ranges cs)
          else map_option (\<lambda>xs. OneOf [Chars xs]) (class_ranges body))"

definition then_item :: "item \<Rightarrow> item list completion \<Rightarrow> item list completion" where
  "then_item i r =
     (case r of Normal its \<Rightarrow> Normal (i # its) | Throw e \<Rightarrow> Throw e | Unmodelled \<Rightarrow> Unmodelled)"

text \<open>
  The terms of a key without backslash, from left to right; \<open>depth\<close> is the number of
  groups that are open. \<open>re.test\<close> reads no capture, so a group only delimits.
\<close>

function parse_terms :: "nat \<Rightarrow> string \<Rightarrow> item list completion" where
  "parse_terms depth [] = (if depth = 0 then Normal [] else Throw SyntaxError)"
| "parse_terms depth (c # cs) =
     (if quantifier_char c then Throw SyntaxError
      else if c = CHR ''('' then
        (if take 1 cs = ''?'' then Unmodelled
         else then_item GroupOpen (parse_terms (Suc depth) cs))
      else if c = CHR '')'' then
        (if depth = 0 then Throw SyntaxError
         else if list_ex quantifier_char (take 1 cs) then Unmodelled
         else then_item GroupClose (parse_terms (depth - 1) cs))
      else if c \<in> set ''{|^$'' then Unmodelled
      else if c = CHR ''['' then
        (if CHR '']'' \<notin> set cs then Throw SyntaxError
         else case class_atom (takeWhile (\<lambda>x. x \<noteq> CHR '']'') cs) of
                None \<Rightarrow> Throw SyntaxError
              | Some a \<Rightarrow>
                  (case take_quantifier (tl (dropWhile (\<lambda>x. x \<noteq> CHR '']'') cs)) of
                     (q, rest) \<Rightarrow> then_item (Atom a q) (parse_terms depth rest)))
      else (case take_quantifier cs of
              (q, rest) \<Rightarrow> then_item (Atom (key_atom c) q) (parse_terms depth rest)))"
  by pat_completeness auto

termination
proof -
  have shorter: "length (snd (take_quantifier s)) \<le> length s" for s
    by (auto simp: take_quantifier_def split: list.splits)
  show ?thesis
  proof (relation "measure (\<lambda>(depth, s). length s)", goal_cases)
    case (4 depth c cs a q rest)
    have "length rest \<le> length (tl (dropWhile (\<lambda>x. x \<noteq> CHR '']'') cs))"
      using shorter [of "tl (dropWhile (\<lambda>x. x \<noteq> CHR '']'') cs)"] 4 by (metis snd_conv)
    also have "\<dots> \<le> length cs"
      using length_dropWhile_le [of "\<lambda>x. x \<noteq> CHR '']''" cs] by simp
    finally show ?case by simp
  next
    case (5 depth c cs q rest)
    have "length rest \<le> length cs"
      using shorter [of cs] 5 by (metis snd_conv)
    then show ?case by simp
  qed simp_all
qed

definition type_RegExp :: "string \<Rightarrow> RegExp completion" where
  "type_RegExp t =
     (if CHR 0x5C \<in> set t then Unmodelled
      else if unterminated_class t then Throw SyntaxError
      else if CHR ''['' \<notin> set t \<and> \<not> balanced 0 t then Throw SyntaxError
      else case parse_terms 0 t of
             Normal its \<Rightarrow> Normal (rx ([WordBoundary] @ its @ [WordBoundary]))
           | Throw e \<Rightarrow> Throw e
           | Unmodelled \<Rightarrow> Unmodelled)"

text \<open>The first loop of \<open>findPatternMatch\<close>, over \<open>Object.entries(this.transactionErrors)\<close>.\<close>

fun scan_types :: "(string \<times> string) list \<Rightarrow> string \<Rightarrow> ParsedErrorBase option completion" where
  "scan_types [] errorString = Normal None"
| "scan_types ((t, msg) # rest) errorString =
     (case type_RegExp t of
        Throw e \<Rightarrow> Throw e
      | Unmodelled \<Rightarrow> Unmodelled
      | Normal re \<Rightarrow>
          if RegExp_test re errorString
          then Normal (Some \<lparr>code = None, errorType = Some t,
                              message = ''Transaction Error ('' @ t @ ''): '' @ msg,
                              isKnownError = True, category = transaction\<rparr>)
          else scan_types rest errorString)"

text \<open>
  The second loop, over \<open>PATTERN_MATCHERS\<close>. Every matcher's \<open>message\<close> is a string, so the
  branch for a function-valued message is never taken.
\<close>

fun scan_matchers :: "PatternMatcher list \<Rightarrow> string \<Rightarrow> ParsedErrorBase option" where
  "scan_matchers [] errorString = None"
| "scan_matchers (matcher # rest) errorString =
     (if String_match errorString (pattern matcher) \<noteq> None
      then Some \<lparr>code = None, errorType = matcher_errorType matcher,
                  message = matcher_message matcher, isKnownError = True,
                  category = matcher_category matcher\<rparr>
      else scan_matchers rest errorString)"

definition findPatternMatch ::
    "SuiClientErrorDecoder \<Rightarrow> string \<Rightarrow> ParsedErrorBase option completion" where
  "findPatternMatch d errorString =
     (case scan_types (Object_entries (transactionErrors d)) errorString of
        Normal None \<Rightarrow> Normal (scan_matchers (PATTERN_MATCHERS d) errorString)
      | r \<Rightarrow> r)"

text \<open>The body of \<open>parseError\<close> once \<open>errorString\<close> is known to be a string.\<close>

definition parse_string :: "SuiClientErrorDecoder \<Rightarrow> jsval \<Rightarrow> string \<Rightarrow> ParsedError completion" where
  "parse_string d error errorString =
     (case extractErrorCode errorString of
        Some errorCode \<Rightarrow>
          (case errorCodes d errorCode of
             Some msg \<Rightarrow>
               if msg \<noteq> []
               then Normal \<lparr>code = Some errorCode, errorType = None,
                             message = ''Error Code '' @ show_int errorCode @ '': '' @ msg,
                             isKnownError = True,
                             category = categorizeError errorCode errorString,
                             originalError = error\<rparr>
               else Normal \<lparr>code = Some errorCode, errorType = None,
                             message = ''Move Error Code '' @ show_int errorCode
                                       @ '': Unknown error occurred'',
                             isKnownError = False, category = move_abort,
                             originalError = error\<rparr>
           | None \<Rightarrow>
               Normal \<lparr>code = Some errorCode, errorType = None,
                        message = ''Move Error Code '' @ show_int errorCode
                                  @ '': Unknown error occurred'',
                        isKnownError = False, category = move_abort,
                        originalError = error\<rparr>)
      | None \<Rightarrow>
          (case findPatternMatch d errorString of
             Throw e \<Rightarrow> Throw e
           | Unmodelled \<Rightarrow> Unmodelled
           | Normal (Some patternMatch) \<Rightarrow>
               Normal \<lparr>code = code patternMatch, errorType = errorType patternMatch,
                        message = message patternMatch,
                        isKnownError = isKnownError patternMatch,
                        category = category patternMatch, originalError = error\<rparr>
           | Normal None \<Rightarrow>
               Normal \<lparr>code = None, errorType = None,
                        message = (if errorString \<noteq> [] then errorString
                                   else ''An unexpected error occurred''),
                        isKnownError = False, category = unknown, originalError = error\<rparr>))"

text \<open>
  \<open>parseError\<close>. When \<open>extractErrorString\<close> hands back something that is not a string (the
  result of a \<open>toString\<close> member), the call \<open>errorString.match(pattern)\<close> in
  \<open>extractErrorCode\<close> is a call of \<open>undefined\<close> and throws a \<open>TypeError\<close>, unless the value is
  an object with a \<open>match\<close> property, which is not modelled.
\<close>

definition parseError :: "SuiClientErrorDecoder \<Rightarrow> heap \<Rightarrow> jsval \<Rightarrow> ParsedError completion" where
  "parseError d h error =
     (case extractErrorString h error of
        Throw e \<Rightarrow> Throw e
      | Unmodelled \<Rightarrow> Unmodelled
      | Normal (JString errorString) \<Rightarrow> parse_string d error errorString
      | Normal (JObject a) \<Rightarrow>
          (case properties (h a) ''match'' of
             None \<Rightarrow> Throw TypeError
           | Some Raises \<Rightarrow> Throw UserException
           | Some (Returns f) \<Rightarrow> Unmodelled)
      | Normal _ \<Rightarrow> Throw TypeError)"

definition decodeError :: "SuiClientErrorDecoder \<Rightarrow> heap \<Rightarrow> jsval \<Rightarrow> string completion" where
  "decodeError d h error =
     (case parseError d h error of
        Normal r \<Rightarrow> Normal (message r)
      | Throw e \<Rightarrow> Throw e
      | Unmodelled \<Rightarrow> Unmodelled)"

section \<open>Tables and objects for the examples\<close>

text \<open>
  The entries of the two default tables that the repository's tests state. The tables
  themselves are in \<open>defaultErrors\<close>; the examples below use these excerpts in their place.
\<close>

definition tested_error_codes :: ErrorCodeMap where
  "tested_error_codes =
     [1 \<mapsto> ''Invalid argument provided'',
      7 \<mapsto> ''Insufficient balance or resources'',
      1000 \<mapsto> ''Unknown verification error'',
      1001 \<mapsto> ''Index out of bounds'',
      1003 \<mapsto> ''Invalid signature token'',
      1020 \<mapsto> ''Type mismatch'',
      2000 \<mapsto> ''Unknown invariant violation error'',
      2023 \<mapsto> ''Arithmetic overflow'',
      3000 \<mapsto> ''Unknown binary error'']"

definition tested_transaction_errors :: TransactionErrorMap where
  "tested_transaction_errors =
     [(''INSUFFICIENT_GAS'', ''Insufficient gas.''),
      (''MOVE_ABORT'', ''Move runtime abort.''),
      (''FUNCTION_NOT_FOUND'', ''Function not found.''),
      (''OBJECT_TOO_BIG'', ''Move object is larger than the maximum allowed size.'')]"

definition no_options :: SuiErrorDecoderOptions where
  "no_options =
     \<lparr>opt_customErrorCodes = None, opt_customTransactionErrors = None, opt_includeDefaults = None\<rparr>"

text \<open>\<open>{ includeDefaults: false }\<close> and \<open>{ customErrorCodes: { 500: "Custom" } }\<close>.\<close>

definition only_custom :: SuiErrorDecoderOptions where
  "only_custom =
     \<lparr>opt_customErrorCodes = None, opt_customTransactionErrors = None,
      opt_includeDefaults = Some False\<rparr>"

definition custom_500 :: SuiErrorDecoderOptions where
  "custom_500 =
     \<lparr>opt_customErrorCodes = Some [500 \<mapsto> ''Custom''], opt_customTransactionErrors = None,
      opt_includeDefaults = None\<rparr>"

definition tested_decoder :: SuiClientErrorDecoder where
  "tested_decoder = constructor tested_error_codes tested_transaction_errors no_options"

text \<open>An object literal with data properties only, such as \<open>{}\<close> or \<open>{ message: "m" }\<close>.\<close>

definition plain_object :: "(string \<rightharpoonup> jsval) \<Rightarrow> jsobj" where
  "plain_object props =
     \<lparr>is_function = False, properties = map_option Returns \<circ> props,
      toString_method = Some (Returns (JString ''[object Object]'')),
      String_coercion = Returns ''[object Object]''\<rparr>"

text \<open>
  An object literal whose only property is a \<open>toString\<close> method with the given outcome.
  \<open>String(obj)\<close> calls that method: it throws when the method throws or returns an object
  or a symbol, and converts any other result to a string.
\<close>

definition object_with_toString :: "jsval outcome \<Rightarrow> jsobj" where
  "object_with_toString r =
     \<lparr>is_function = False, properties = Map.empty, toString_method = Some r,
      String_coercion =
        (case r of
           Raises \<Rightarrow> Raises
         | Returns (JObject b) \<Rightarrow> Raises
         | Returns (JSymbol d) \<Rightarrow> Raises
         | Returns v \<Rightarrow> Returns (String_of_primitive v))\<rparr>"


text \<open>A heap in which every address holds the empty object literal \<open>{}\<close>.\<close>

definition no_objects :: heap where
  "no_objects = (\<lambda>a. plain_object Map.empty)"


section \<open>Notions used in the statements and proofs\<close>

text \<open>
  \<open>numbers_negative prev s\<close>: every digit of \<open>s\<close> directly follows a minus sign or
  another digit (\<open>prev\<close> is the character before \<open>s\<close>), so every number written in
  \<open>s\<close> carries a minus sign.
\<close>

definition minus_or_digit :: "char \<Rightarrow> bool" where
  "minus_or_digit c = (c \<in> set ''-0123456789'')"

fun numbers_negative :: "char option \<Rightarrow> string \<Rightarrow> bool" where
  "numbers_negative prev [] = True"
| "numbers_negative prev (x # xs) =
     ((if is_digit x then (case prev of None \<Rightarrow> False | Some p \<Rightarrow> minus_or_digit p) else True)
      \<and> numbers_negative (Some x) xs)"

text \<open>
  A static check of a pattern against such strings. \<open>safe_atom ic a\<close>: the atom matches
  neither a minus sign nor a digit. \<open>refuted ic b its\<close>: scanning \<open>its\<close> from the left, a
  digit is demanded right after a character that is neither; \<open>b\<close> says that the character
  before the current position is already known to be such a character.
\<close>

definition safe_atom :: "bool \<Rightarrow> atom \<Rightarrow> bool" where
  "safe_atom ic a = list_all (\<lambda>x. \<not> atom_matches ic a x) ''-0123456789''"

fun refuted :: "bool \<Rightarrow> bool \<Rightarrow> item list \<Rightarrow> bool" where
  "refuted ic b [] = False"
| "refuted ic b (GroupOpen # r) = refuted ic b r"
| "refuted ic b (GroupClose # r) = refuted ic b r"
| "refuted ic b (WordBoundary # r) = refuted ic b r"
| "refuted ic b (Atom a Once # r) =
     (if b \<and> a = OneOf [Digits] then True else refuted ic (safe_atom ic a) r)"
| "refuted ic b (Atom a Plus # r) =
     (if b \<and> a = OneOf [Digits] then True else refuted ic (safe_atom ic a) r)"
| "refuted ic b (Atom a q # r) = refuted ic (b \<and> safe_atom ic a) r"


definition bad_prev :: "char option \<Rightarrow> bool" where
  "bad_prev prev = (case prev of None \<Rightarrow> True | Some p \<Rightarrow> \<not> minus_or_digit p)"


text \<open>
  \<open>benign ob\<close>: reading a property of \<open>ob\<close> never throws, and its \<open>toString\<close> member, if it is
  a function, returns a string. Object literals with data properties, arrays of primitives
  and \<open>Error\<close> instances are such objects.
\<close>

definition benign :: "jsobj \<Rightarrow> bool" where
  "benign ob =
     ((\<forall>p. properties ob p \<noteq> Some Raises)
      \<and> (case toString_method ob of
            None \<Rightarrow> True
          | Some (Returns (JString s)) \<Rightarrow> True
          | Some _ \<Rightarrow> False))"

text \<open>
  \<open>compiles t\<close>: the constructor builds a regular expression from the key \<open>t\<close>.
  \<open>key_matches t s\<close>: it does, and the expression matches \<open>s\<close>.
\<close>

definition compiles :: "string \<Rightarrow> bool" where
  "compiles t = (case type_RegExp t of Normal re \<Rightarrow> True | _ \<Rightarrow> False)"

definition key_matches :: "string \<Rightarrow> string \<Rightarrow> bool" where
  "key_matches t s = (case type_RegExp t of Normal re \<Rightarrow> RegExp_test re s | _ \<Rightarrow> False)"


section \<open>Lemmas about objects, strings and the two scans\<close>

lemma map_of_put: "map_of (put k v xs) = (map_of xs)(k \<mapsto> v)"
  by (induction xs) (auto simp: fun_eq_iff)

lemma map_fst_put:
  "map fst (put k v xs) = (if k \<in> set (map fst xs) then map fst xs else map fst xs @ [k])"
  by (induction xs) (auto simp: image_iff, force)

lemma keys_put: "set (map fst (put k v xs)) = insert k (set (map fst xs))"
  by (simp only: map_fst_put) auto

lemma distinct_put: "distinct (map fst xs) \<Longrightarrow> distinct (map fst (put k v xs))"
proof (induction xs)
  case Nil
  then show ?case by simp
next
  case (Cons p ps)
  obtain k' v' where p: "p = (k', v')" by (cases p)
  show ?case
  proof (cases "k' = k")
    case True
    with Cons.prems p show ?thesis by simp
  next
    case False
    have "k' \<notin> set (map fst (put k v ps))"
      using Cons.prems p False by (simp only: keys_put) simp
    with Cons p False show ?thesis by simp
  qed
qed

lemma foldl_put_map_of:
  "map_of (foldl (\<lambda>acc (k, v). put k v acc) acc xs) = map_of acc ++ map_of (rev xs)"
proof (induction xs arbitrary: acc)
  case Nil
  then show ?case by simp
next
  case (Cons p ps)
  obtain k v where p: "p = (k, v)" by (cases p)
  show ?case
    by (simp add: Cons.IH p map_of_put) (simp add: map_add_def fun_eq_iff split: option.splits)
qed

lemma foldl_put_distinct:
  "distinct (map fst acc) \<Longrightarrow> distinct (map fst (foldl (\<lambda>acc (k, v). put k v acc) acc xs))"
proof (induction xs arbitrary: acc)
  case Nil
  then show ?case by simp
next
  case (Cons p ps)
  obtain k v where p: "p = (k, v)" by (cases p)
  show ?case using Cons.prems by (simp add: p Cons.IH distinct_put)
qed

lemma own_properties_map_of: "map_of (own_properties obj) = map_of (rev obj)"
  by (simp add: own_properties_def foldl_put_map_of)

lemma own_properties_distinct: "distinct (map fst (own_properties obj))"
  by (simp add: own_properties_def foldl_put_distinct)

lemma Object_entries_set: "set (Object_entries obj) = set (own_properties obj)"
  by (auto simp: Object_entries_def Let_def)

lemma Object_entries_distinct: "distinct (map fst (Object_entries obj))"
proof -
  let ?ps = "own_properties obj"
  have d: "distinct (map fst ?ps)" by (rule own_properties_distinct)
  then have dp: "distinct ?ps" and inj: "inj_on fst (set ?ps)"
    by (simp_all add: distinct_map)
  have "distinct (Object_entries obj)"
    using dp by (auto simp: Object_entries_def Let_def)
  moreover have "inj_on fst (set (Object_entries obj))"
    using inj by (simp add: Object_entries_set)
  ultimately show ?thesis by (simp add: distinct_map)
qed

lemma Object_entries_map_of: "map_of (Object_entries obj) = map_of (rev obj)"
proof -
  have "map_of (Object_entries obj) = map_of (own_properties obj)"
    using Object_entries_distinct own_properties_distinct Object_entries_set
    by (simp add: map_of_inject_set)
  then show ?thesis by (simp add: own_properties_map_of)
qed

lemma lookup_Object_entries: "lookup (Object_entries obj) k = lookup obj k"
proof -
  have "distinct (map fst (rev (Object_entries obj)))"
    using Object_entries_distinct [of obj] by (simp add: rev_map [symmetric])
  then have "map_of (rev (Object_entries obj)) = map_of (Object_entries obj)"
    using Object_entries_distinct [of obj] by (simp add: map_of_inject_set)
  then show ?thesis by (simp add: lookup_def Object_entries_map_of)
qed

lemma lookup_append: "lookup (a @ b) k = (case lookup b k of Some v \<Rightarrow> Some v | None \<Rightarrow> lookup a k)"
  by (simp add: lookup_def map_add_def split: option.splits)

lemma lookup_spread2:
  "lookup (spread2 a b) k = (case lookup b k of Some v \<Rightarrow> Some v | None \<Rightarrow> lookup a k)"
  by (simp add: spread2_def lookup_append lookup_Object_entries split: option.splits)

lemma String_includes_Nil: "String_includes ys []"
  by (cases ys) auto

lemma String_includes_self: "String_includes (t @ ys) t"
  by (cases t) (auto simp: String_includes_Nil)

lemma String_includes_append: "String_includes (xs @ t @ ys) t"
proof (induction xs)
  case Nil
  show ?case using String_includes_self by simp
next
  case (Cons x xs)
  then show ?case by simp
qed

lemma extract_loop_nonneg: "extract_loop ps s = Some c \<Longrightarrow> 0 \<le> c"
  by (induction ps) (auto split: option.splits if_splits)

lemma balanced_safe: "list_all (\<lambda>c. c \<notin> set syntax_chars) k \<Longrightarrow> balanced n k = (n = 0)"
  by (induction k arbitrary: n) (auto simp: syntax_chars_def)

lemma parse_terms_safe: "regex_safe t \<Longrightarrow> parse_terms 0 t = Normal (lit t)"
proof (induction t)
  case Nil
  then show ?case by (simp add: lit_def)
next
  case (Cons c cs)
  have c: "\<not> quantifier_char c" "c \<noteq> CHR ''(''" "c \<noteq> CHR '')''" "c \<notin> set ''{|^$''"
    "c \<noteq> CHR ''[''" "key_atom c = Ch c"
    using Cons.prems by (auto simp: regex_safe_def syntax_chars_def quantifier_char_def key_atom_def)
  have cs: "regex_safe cs"
    using Cons.prems by (simp add: regex_safe_def)
  then have "take_quantifier cs = (Once, cs)"
    by (cases cs)
      (auto simp: take_quantifier_def regex_safe_def syntax_chars_def quantifier_char_def)
  then show ?case
    using c Cons.IH [OF cs] by (simp add: then_item_def lit_def)
qed

lemma type_RegExp_safe:
  assumes "regex_safe t"
  shows "type_RegExp t = Normal (rx (WordBoundary # lit t @ [WordBoundary]))"
proof -
  have chars: "\<forall>c \<in> set t. c \<notin> set syntax_chars"
    using assms by (simp add: regex_safe_def list_all_iff)
  then have "CHR 0x5C \<notin> set t" and "CHR ''['' \<notin> set t"
    by (auto simp: syntax_chars_def)
  moreover have "balanced 0 t"
    using balanced_safe [of t 0] assms by (simp add: regex_safe_def)
  ultimately show ?thesis
    using parse_terms_safe [OF assms] by (simp add: type_RegExp_def unterminated_class_def)
qed

text \<open>Keys with a class, a group or a quantifier, and keys that are not a pattern.\<close>

lemma type_RegExp_examples:
  "type_RegExp ''f(x)'' =
     Normal (rx [WordBoundary, Atom (Ch CHR ''f'') Once, GroupOpen, Atom (Ch CHR ''x'') Once,
                 GroupClose, WordBoundary])"
  "type_RegExp ''v[0-3]+'' =
     Normal (rx [WordBoundary, Atom (Ch CHR ''v'') Once, Atom (OneOf [Chars ''0123'']) Plus,
                 WordBoundary])"
  "type_RegExp ''[^a-]'' = Normal (rx [WordBoundary, Atom (NoneOf [Chars ''a-'']) Once, WordBoundary])"
  "type_RegExp ''a*?]'' =
     Normal (rx [WordBoundary, Atom (Ch CHR ''a'') LazyStar, Atom (Ch CHR '']'') Once,
                 WordBoundary])"
  "type_RegExp ''[z-a]'' = Throw SyntaxError"
  "type_RegExp ''[a][b'' = Throw SyntaxError"
  "type_RegExp ''(*)'' = Throw SyntaxError"
  "type_RegExp ''a**'' = Throw SyntaxError"
  "type_RegExp ''[a])'' = Throw SyntaxError"
  "type_RegExp ''x|y'' = Unmodelled"
  "type_RegExp ''(x)*'' = Unmodelled"
  by code_simp+

lemma type_RegExp_unbalanced: "unbalanced_key k \<Longrightarrow> type_RegExp k = Throw SyntaxError"
  by (simp add: unbalanced_key_def type_RegExp_def unterminated_class_def)

lemma unbalanced_not_safe: "unbalanced_key k \<Longrightarrow> \<not> regex_safe k"
  using balanced_safe [of k 0] by (auto simp: unbalanced_key_def regex_safe_def)

lemma compiles_safe: "regex_safe t \<Longrightarrow> compiles t"
  by (simp add: compiles_def type_RegExp_safe)

lemma key_matches_safe:
  "regex_safe t \<Longrightarrow> key_matches t s = RegExp_test (rx (WordBoundary # lit t @ [WordBoundary])) s"
  by (simp add: key_matches_def type_RegExp_safe)

lemma scan_types_compiles:
  "list_all (\<lambda>(t, m). compiles t) es \<Longrightarrow> \<exists>r. scan_types es s = Normal r"
  by (induction es) (auto simp: compiles_def split: completion.splits)

lemma scan_types_safe:
  "list_all (\<lambda>(t, m). regex_safe t) es \<Longrightarrow> \<exists>r. scan_types es s = Normal r"
  by (rule scan_types_compiles) (auto simp: list_all_iff compiles_safe)

lemma scan_types_throws:
  assumes "list_all (\<lambda>(t, m). compiles t \<and> \<not> key_matches t s) pre"
    and "type_RegExp k = Throw e"
  shows "scan_types (pre @ (k, m) # post) s = Throw e"
  using assms
proof (induction pre)
  case Nil
  then show ?case by simp
next
  case (Cons p pre)
  then show ?case
    by (cases p) (auto simp: compiles_def key_matches_def split: completion.splits)
qed

lemma scan_types_reaches:
  assumes "list_all (\<lambda>(t, m). regex_safe t \<and> \<not> RegExp_test (rx ([WordBoundary] @ lit t @ [WordBoundary])) s) pre"
    and "unbalanced_key k"
  shows "scan_types (pre @ (k, m) # post) s = Throw SyntaxError"
proof (rule scan_types_throws)
  show "list_all (\<lambda>(t, m). compiles t \<and> \<not> key_matches t s) pre"
    using assms(1) by (auto simp: list_all_iff compiles_safe key_matches_safe)
  show "type_RegExp k = Throw SyntaxError"
    using assms(2) by (rule type_RegExp_unbalanced)
qed


section \<open>Strings whose numbers are all negative\<close>

lemma safe_atom_sound: "safe_atom ic a \<Longrightarrow> atom_matches ic a x \<Longrightarrow> \<not> minus_or_digit x"
  unfolding safe_atom_def minus_or_digit_def list_all_iff by blast

lemma digit_minus: "is_digit x \<Longrightarrow> minus_or_digit x"
  by (auto simp: is_digit_def minus_or_digit_def)

lemma refuted_mono: "refuted ic b1 its \<Longrightarrow> (b1 \<Longrightarrow> b2) \<Longrightarrow> refuted ic b2 its"
  by (induction ic b1 its arbitrary: b2 rule: refuted.induct) (auto split: if_splits)

lemma refuted_sound:
  "refuted ic b its \<Longrightarrow> (b \<Longrightarrow> bad_prev prev) \<Longrightarrow> numbers_negative prev s
    \<Longrightarrow> rmatch ic its prev s opened cap = None"
proof (induction ic its prev s opened cap arbitrary: b rule: rmatch.induct)
  case (1 ic prev s opened cap)
  then show ?case by simp
next
  case (2 ic r prev s opened cap)
  then show ?case by simp
next
  case (3 ic r prev s opened cap)
  then show ?case by simp
next
  case (4 ic r prev s opened cap)
  then show ?case by simp
next
  case (5 ic a r prev opened cap)
  then show ?case by simp
next
  case (6 ic a r prev x xs opened cap)
  show ?case
  proof (cases "atom_matches ic a x")
    case False
    then show ?thesis by simp
  next
    case True
    show ?thesis
    proof (cases "b \<and> a = OneOf [Digits]")
      case True
      with \<open>atom_matches ic a x\<close> have "is_digit x" by simp
      with 6(4) have "\<not> bad_prev prev" by (auto simp: bad_prev_def split: option.splits)
      with True 6(3) show ?thesis by simp
    next
      case False
      with 6(2) have r: "refuted ic (safe_atom ic a) r" by auto
      have "safe_atom ic a \<Longrightarrow> bad_prev (Some x)"
        using safe_atom_sound [OF _ True] by (simp add: bad_prev_def)
      moreover have "numbers_negative (Some x) xs" using 6(4) by simp
      ultimately have "rmatch ic r (Some x) xs opened cap = None"
        using 6(1) [OF True r] by blast
      with True show ?thesis by simp
    qed
  qed
next
  case (7 ic a r prev opened cap)
  from 7(2) have "refuted ic (b \<and> safe_atom ic a) r" by simp
  then have "refuted ic b r" by (rule refuted_mono) simp
  with 7 show ?case by simp
next
  case (8 ic a r prev x xs opened cap)
  from 8(4) have rr: "refuted ic (b \<and> safe_atom ic a) r" by simp
  then have rb: "refuted ic b r" by (rule refuted_mono) simp
  show ?case
  proof (cases "atom_matches ic a x")
    case False
    have "rmatch ic r prev (x # xs) opened cap = None"
      using 8(3) [OF False rb 8(5) 8(6)] .
    with False show ?thesis by simp
  next
    case True
    have "refuted ic (safe_atom ic a) r" using rr by (rule refuted_mono) simp
    moreover have "safe_atom ic a \<Longrightarrow> bad_prev (Some x)"
      using safe_atom_sound [OF _ True] by (simp add: bad_prev_def)
    moreover have "numbers_negative (Some x) xs" using 8(6) by simp
    ultimately have consume: "rmatch ic (r) (Some x) xs opened cap = None"
      using 8(1) [OF True] by blast
    have "rmatch ic r prev (x # xs) opened cap = None"
      using 8(2) [OF True consume rb 8(5) 8(6)] .
    with True consume show ?thesis by simp
  qed
next
  case (9 ic a r prev opened cap)
  from 9(2) have "refuted ic (b \<and> safe_atom ic a) r" by simp
  then have "refuted ic b r" by (rule refuted_mono) simp
  with 9 show ?case by simp
next
  case (10 ic a r prev x xs opened cap)
  from 10(4) have rr: "refuted ic (b \<and> safe_atom ic a) r" by simp
  then have rb: "refuted ic b r" by (rule refuted_mono) simp
  show ?case
  proof (cases "atom_matches ic a x")
    case False
    have "rmatch ic r prev (x # xs) opened cap = None"
      using 10(3) [OF False rb 10(5) 10(6)] .
    with False show ?thesis by simp
  next
    case True
    have "refuted ic (safe_atom ic a) (Atom a Star # r)"
      using rr by (simp, rule refuted_mono) simp
    moreover have "safe_atom ic a \<Longrightarrow> bad_prev (Some x)"
      using safe_atom_sound [OF _ True] by (simp add: bad_prev_def)
    moreover have "numbers_negative (Some x) xs" using 10(6) by simp
    ultimately have consume: "rmatch ic (Atom a Star # r) (Some x) xs opened cap = None"
      using 10(1) [OF True] by blast
    have "rmatch ic r prev (x # xs) opened cap = None"
      using 10(2) [OF True consume rb 10(5) 10(6)] .
    with True consume show ?thesis by simp
  qed
next
  case (11 ic a r prev opened cap)
  then show ?case by simp
next
  case (12 ic a r prev x xs opened cap)
  show ?case
  proof (cases "atom_matches ic a x")
    case False
    then show ?thesis by simp
  next
    case True
    show ?thesis
    proof (cases "b \<and> a = OneOf [Digits]")
      case True
      with \<open>atom_matches ic a x\<close> have "is_digit x" by simp
      with 12(4) have "\<not> bad_prev prev" by (auto simp: bad_prev_def split: option.splits)
      with True 12(3) show ?thesis by simp
    next
      case False
      with 12(2) have r: "refuted ic (safe_atom ic a) r" by auto
      then have "refuted ic (safe_atom ic a) (Atom a Star # r)" by simp
      moreover have "safe_atom ic a \<Longrightarrow> bad_prev (Some x)"
        using safe_atom_sound [OF _ True] by (simp add: bad_prev_def)
      moreover have "numbers_negative (Some x) xs" using 12(4) by simp
      ultimately have "rmatch ic (Atom a Star # r) (Some x) xs opened cap = None"
        using 12(1) [OF True] by blast
      with True show ?thesis by simp
    qed
  qed
next
  case (13 ic a r prev opened cap)
  from 13(2) have "refuted ic (b \<and> safe_atom ic a) r" by simp
  then have "refuted ic b r" by (rule refuted_mono) simp
  with 13 show ?case by simp
next
  case (14 ic a r prev x xs opened cap)
  from 14(3) have rr: "refuted ic (b \<and> safe_atom ic a) r" by simp
  then have rb: "refuted ic b r" by (rule refuted_mono) simp
  have stay: "rmatch ic r prev (x # xs) opened cap = None"
    using 14(1) rb 14(4,5) by auto
  show ?case
  proof (cases "atom_matches ic a x")
    case False
    with stay show ?thesis by simp
  next
    case True
    have "refuted ic (safe_atom ic a) (Atom a LazyStar # r)"
      using rr by (simp, rule refuted_mono) simp
    moreover have "safe_atom ic a \<Longrightarrow> bad_prev (Some x)"
      using safe_atom_sound [OF _ True] by (simp add: bad_prev_def)
    moreover have "numbers_negative (Some x) xs" using 14(5) by simp
    ultimately have "rmatch ic (Atom a LazyStar # r) (Some x) xs opened cap = None"
      using 14(2) [OF stay True] by blast
    with True stay show ?thesis by simp
  qed
next
  case (15 ic a r prev opened cap)
  then show ?case by simp
next
  case (16 ic a r prev x xs opened cap)
  from 16(2) have rr: "refuted ic (b \<and> safe_atom ic a) r" by simp
  show ?case
  proof (cases "atom_matches ic a x")
    case False
    then show ?thesis by simp
  next
    case True
    have "refuted ic (safe_atom ic a) (Atom a LazyStar # r)"
      using rr by (simp, rule refuted_mono) simp
    moreover have "safe_atom ic a \<Longrightarrow> bad_prev (Some x)"
      using safe_atom_sound [OF _ True] by (simp add: bad_prev_def)
    moreover have "numbers_negative (Some x) xs" using 16(4) by simp
    ultimately have "rmatch ic (Atom a LazyStar # r) (Some x) xs opened cap = None"
      using 16(1) [OF True] by blast
    with True show ?thesis by simp
  qed
next
  case (17 ic a r prev opened cap)
  from 17(2) have "refuted ic (b \<and> safe_atom ic a) r" by simp
  then have "refuted ic b r" by (rule refuted_mono) simp
  with 17 show ?case by simp
next
  case (18 ic a r prev x xs opened cap)
  from 18(3) have rr: "refuted ic (b \<and> safe_atom ic a) r" by simp
  then have rb: "refuted ic b r" by (rule refuted_mono) simp
  have stay: "rmatch ic r prev (x # xs) opened cap = None"
    using 18(1) rb 18(4,5) by auto
  show ?case
  proof (cases "atom_matches ic a x")
    case False
    with stay show ?thesis by simp
  next
    case True
    have "refuted ic (safe_atom ic a) r" using rr by (rule refuted_mono) simp
    moreover have "safe_atom ic a \<Longrightarrow> bad_prev (Some x)"
      using safe_atom_sound [OF _ True] by (simp add: bad_prev_def)
    moreover have "numbers_negative (Some x) xs" using 18(5) by simp
    ultimately have "rmatch ic r (Some x) xs opened cap = None"
      using 18(2) [OF stay True] by blast
    with True stay show ?thesis by simp
  qed
qed


lemma numbers_negative_tail: "numbers_negative prev (x # xs) \<Longrightarrow> numbers_negative (Some x) xs"
  by simp

lemma rsearch_refuted:
  "refuted ic False its \<Longrightarrow> numbers_negative prev s \<Longrightarrow> rsearch ic its prev s = None"
proof (induction s arbitrary: prev)
  case Nil
  then show ?case using refuted_sound [of ic False its prev "[]"] by simp
next
  case (Cons x xs)
  have "rmatch ic its prev (x # xs) None None = None"
    using refuted_sound [OF Cons.prems(1) _ Cons.prems(2)] by simp
  moreover have "rsearch ic its (Some x) xs = None"
    using Cons.IH [OF Cons.prems(1) numbers_negative_tail [OF Cons.prems(2)]] .
  ultimately show ?case by simp
qed

lemma rmatch_lit_prefix:
  "rmatch False (lit w @ r) prev s opened cap = Some res \<Longrightarrow> take (length w) s = w"
proof (induction w arbitrary: prev s)
  case Nil
  then show ?case by (simp add: lit_def)
next
  case (Cons c w)
  show ?case
  proof (cases s)
    case Nil
    with Cons.prems show ?thesis by (simp add: lit_def)
  next
    case (Cons x xs)
    with Cons.prems have x: "x = c" and m: "rmatch False (lit w @ r) (Some x) xs opened cap = Some res"
      by (auto simp: lit_def split: if_splits)
    from Cons.IH [OF m] x Cons show ?thesis by simp
  qed
qed

lemma rsearch_lit_includes:
  "rsearch False (lit w @ r) prev s = Some res \<Longrightarrow> String_includes s w"
proof (induction s arbitrary: prev)
  case Nil
  then have "take (length w) [] = w" using rmatch_lit_prefix [of w r prev "[]"] by simp
  then show ?case by simp
next
  case (Cons x xs)
  show ?case
  proof (cases "rmatch False (lit w @ r) prev (x # xs) None None")
    case None
    with Cons.prems have "rsearch False (lit w @ r) (Some x) xs = Some res" by simp
    from Cons.IH [OF this] show ?thesis by simp
  next
    case (Some a)
    from rmatch_lit_prefix [OF this] show ?thesis by simp
  qed
qed

lemma extract_loop_no_match:
  "list_all (\<lambda>p. String_match s p = None) ps \<Longrightarrow> extract_loop ps s = None"
  by (induction ps) auto

lemma code_patterns_refuted:
  "list_all (\<lambda>p. refuted (ignoreCase p) False (items p)
       \<or> (\<not> ignoreCase p \<and> take 9 (items p) = lit ''MoveAbort'')) code_patterns"
  by code_simp

lemma extract_none_of_negative:
  assumes "numbers_negative None s" and "\<not> String_includes s ''MoveAbort''"
  shows "extractErrorCode s = None"
proof -
  have "String_match s p = None"
    if "refuted (ignoreCase p) False (items p)
       \<or> (\<not> ignoreCase p \<and> take 9 (items p) = lit ''MoveAbort'')" for p
  proof (cases "refuted (ignoreCase p) False (items p)")
    case True
    then show ?thesis using assms(1) by (simp add: String_match_def rsearch_refuted)
  next
    case False
    with that have "\<not> ignoreCase p" and "take 9 (items p) = lit ''MoveAbort''" by blast+
    then obtain r where "\<not> ignoreCase p" "items p = lit ''MoveAbort'' @ r"
      using append_take_drop_id [of 9 "items p"] by metis
    then show ?thesis
      using rsearch_lit_includes [of "''MoveAbort''" r None s] assms(2)
      by (cases "rsearch False (lit ''MoveAbort'' @ r) None s") (auto simp: String_match_def)
  qed
  then have "list_all (\<lambda>p. String_match s p = None) code_patterns"
    using code_patterns_refuted by (simp add: list_all_iff)
  then show ?thesis by (simp add: extractErrorCode_def extract_loop_no_match)
qed


section \<open>Results on the numeric-code branch\<close>

lemma lookup_in_entries: "lookup obj t = Some m \<longleftrightarrow> (t, m) \<in> set (Object_entries obj)"
proof -
  have "map_of (Object_entries obj) t = Some m \<longleftrightarrow> (t, m) \<in> set (Object_entries obj)"
    using Object_entries_distinct [of obj] by simp
  then show ?thesis by (simp add: lookup_def Object_entries_map_of)
qed

lemma parse_string_code:
  "extractErrorCode s = Some c \<Longrightarrow>
   parse_string d error s =
     Normal \<lparr>code = Some c, errorType = None,
       message = (case getErrorMessage d c of
                    Some m \<Rightarrow> ''Error Code '' @ show_int c @ '': '' @ m
                  | None \<Rightarrow> ''Move Error Code '' @ show_int c @ '': Unknown error occurred''),
       isKnownError = (getErrorMessage d c \<noteq> None),
       category = (case getErrorMessage d c of Some m \<Rightarrow> categorizeError c s | None \<Rightarrow> move_abort),
       originalError = error\<rparr>"
  by (simp add: parse_string_def getErrorMessage_def or_null_def split: option.splits)

lemma parseError_string:
  "extractErrorString h error = Normal (JString s) \<Longrightarrow> parseError d h error = parse_string d error s"
  by (simp add: parseError_def)

text \<open>
  C1. When the normalized string yields a code, \<open>parseError\<close> returns the numeric-code
  result: the code, no error type, the registry message for the code (or the unknown-code
  message), and the input itself. The symbolic-type table and the pattern table have no
  part in it: replacing both by anything leaves the result as it is. They are consulted
  only when no code is extracted.
\<close>

theorem parseError_code_first:
  assumes "extractErrorString h error = Normal (JString s)"
    and "extractErrorCode s = Some c"
  shows "parseError d h error =
      Normal \<lparr>code = Some c, errorType = None,
        message = (case getErrorMessage d c of
                     Some m \<Rightarrow> ''Error Code '' @ show_int c @ '': '' @ m
                   | None \<Rightarrow> ''Move Error Code '' @ show_int c @ '': Unknown error occurred''),
        isKnownError = (getErrorMessage d c \<noteq> None),
        category = (case getErrorMessage d c of Some m \<Rightarrow> categorizeError c s | None \<Rightarrow> move_abort),
        originalError = error\<rparr>
    \<and> parseError (d\<lparr>transactionErrors := te, PATTERN_MATCHERS := pms\<rparr>) h error
        = parseError d h error"
  using assms
  by (simp add: parseError_string parse_string_code getErrorMessage_def)

theorem parseError_code_first_witness:
  "extractErrorCode ''Transaction failed: INSUFFICIENT_GAS with MoveAbort code 1001'' = Some 1001
   \<and> findPatternMatch tested_decoder
        ''Transaction failed: INSUFFICIENT_GAS with MoveAbort code 1001'' =
       Normal (Some \<lparr>code = None, errorType = Some ''INSUFFICIENT_GAS'',
         message = ''Transaction Error (INSUFFICIENT_GAS): Insufficient gas.'',
         isKnownError = True, category = transaction\<rparr>)
   \<and> parseError tested_decoder no_objects
        (JString ''Transaction failed: INSUFFICIENT_GAS with MoveAbort code 1001'') =
       Normal \<lparr>code = Some 1001, errorType = None,
         message = ''Error Code 1001: Index out of bounds'', isKnownError = True,
         category = move_abort,
         originalError =
           JString ''Transaction failed: INSUFFICIENT_GAS with MoveAbort code 1001''\<rparr>"
proof -
  let ?s = "''Transaction failed: INSUFFICIENT_GAS with MoveAbort code 1001''"
  have s: "extractErrorString no_objects (JString ?s) = Normal (JString ?s)"
    by (simp add: extractErrorString_def)
  have c: "extractErrorCode ?s = Some 1001"
    by code_simp
  have f: "findPatternMatch tested_decoder ?s =
       Normal (Some \<lparr>code = None, errorType = Some ''INSUFFICIENT_GAS'',
         message = ''Transaction Error (INSUFFICIENT_GAS): Insufficient gas.'',
         isKnownError = True, category = transaction\<rparr>)"
    by code_simp
  have m: "getErrorMessage tested_decoder 1001 = Some ''Index out of bounds''"
    by code_simp
  have n: "show_int 1001 = ''1001''"
    by code_simp
  have k: "categorizeError 1001 ?s = move_abort"
    by (simp add: categorizeError_def)
  show ?thesis
    using parseError_code_first [OF s c, of tested_decoder] c f
    by (simp add: m n k)
qed


text \<open>
  C7. When the normalized string yields a code \<open>M\<close> that the merged code table does not
  contain, \<open>parseError\<close> returns \<open>code = M\<close>, \<open>isKnownError = false\<close>,
  \<open>category = move_abort\<close> and the message \<open>Move Error Code M: Unknown error occurred\<close>,
  which contains \<open>Unknown error occurred\<close>.
\<close>

theorem unknown_code_result:
  assumes "extractErrorString h error = Normal (JString s)"
    and "extractErrorCode s = Some M"
    and "M \<notin> dom (errorCodes d)"
  shows "parseError d h error =
      Normal \<lparr>code = Some M, errorType = None,
        message = ''Move Error Code '' @ show_int M @ '': Unknown error occurred'',
        isKnownError = False, category = move_abort, originalError = error\<rparr>
    \<and> String_includes (''Move Error Code '' @ show_int M @ '': Unknown error occurred'')
          ''Unknown error occurred''"
proof -
  have "errorCodes d M = None"
    using assms(3) by (simp add: domIff)
  then have "parse_string d error s =
      Normal \<lparr>code = Some M, errorType = None,
        message = ''Move Error Code '' @ show_int M @ '': Unknown error occurred'',
        isKnownError = False, category = move_abort, originalError = error\<rparr>"
    using assms(2) by (simp add: parse_string_def)
  moreover have "String_includes
      ((''Move Error Code '' @ show_int M @ '': '') @ ''Unknown error occurred'' @ [])
      ''Unknown error occurred''"
    by (rule String_includes_append)
  ultimately show ?thesis
    using assms(1) by (simp add: parseError_string)
qed

theorem unknown_code_result_witness:
  "extractErrorCode ''MoveAbort(address, 99999) in command 0'' = Some 99999
   \<and> 99999 \<notin> dom (errorCodes tested_decoder)
   \<and> parseError tested_decoder no_objects (JString ''MoveAbort(address, 99999) in command 0'') =
       Normal \<lparr>code = Some 99999, errorType = None,
         message = ''Move Error Code 99999: Unknown error occurred'',
         isKnownError = False, category = move_abort,
         originalError = JString ''MoveAbort(address, 99999) in command 0''\<rparr>
   \<and> String_includes ''Move Error Code 99999: Unknown error occurred'' ''Unknown error occurred''"
proof -
  let ?s = "''MoveAbort(address, 99999) in command 0''"
  have s: "extractErrorString no_objects (JString ?s) = Normal (JString ?s)"
    by (simp add: extractErrorString_def)
  have c: "extractErrorCode ?s = Some 99999"
    by code_simp
  have u: "99999 \<notin> dom (errorCodes tested_decoder)"
    by code_simp
  have n: "show_int 99999 = ''99999''"
    by code_simp
  show ?thesis
    using unknown_code_result [OF s c u] c u
    by (simp add: n)
qed

text \<open>
  C5, as the code has it. The category follows the numeric band only when the extracted
  code is registered with a non-empty message: a registered 2023 gives \<open>sui_system\<close>, a
  registered 500 gives \<open>move_abort\<close>. For a code that is not registered the category is
  \<open>move_abort\<close> whatever the band, so an unregistered 2023 gives \<open>move_abort\<close> as well.
\<close>

theorem category_of_code_result:
  assumes "extractErrorString h error = Normal (JString s)"
    and "extractErrorCode s = Some c"
  shows "map_completion category (parseError d h error) =
           Normal (if getErrorMessage d c = None then move_abort else categorizeError c s)
    \<and> categorizeError 2023 s = sui_system
    \<and> categorizeError 500 s = move_abort"
  using assms
  by (auto simp: parseError_string parse_string_code categorizeError_def split: option.splits)

theorem category_of_code_result_witness:
  "map_completion category
     (parseError tested_decoder no_objects
        (JString ''System error with code 2023: Arithmetic overflow'')) = Normal sui_system
   \<and> map_completion category
     (parseError (constructor tested_error_codes tested_transaction_errors only_custom) no_objects
        (JString ''System error with code 2023: Arithmetic overflow'')) = Normal move_abort
   \<and> map_completion category
     (parseError (constructor tested_error_codes tested_transaction_errors custom_500) no_objects
        (JString ''Error Code 500'')) = Normal move_abort
   \<and> map_completion category
     (parseError tested_decoder no_objects (JString ''Error Code 500'')) = Normal move_abort"
proof -
  let ?s = "''System error with code 2023: Arithmetic overflow''"
  let ?t = "''Error Code 500''"
  have s: "extractErrorString no_objects (JString ?s) = Normal (JString ?s)"
    and t: "extractErrorString no_objects (JString ?t) = Normal (JString ?t)"
    by (simp_all add: extractErrorString_def)
  have c: "extractErrorCode ?s = Some 2023"
    by code_simp
  have e: "extractErrorCode ?t = Some 500"
    by code_simp
  have m1: "getErrorMessage tested_decoder 2023 = Some ''Arithmetic overflow''"
    by code_simp
  have m2: "getErrorMessage (constructor tested_error_codes tested_transaction_errors only_custom) 2023 = None"
    by code_simp
  have m3: "getErrorMessage (constructor tested_error_codes tested_transaction_errors custom_500) 500 = Some ''Custom''"
    by code_simp
  have m4: "getErrorMessage tested_decoder 500 = None"
    by code_simp
  show ?thesis
    using category_of_code_result [OF s c, of tested_decoder]
      category_of_code_result [OF s c, of "constructor tested_error_codes tested_transaction_errors only_custom"]
      category_of_code_result [OF t e, of "constructor tested_error_codes tested_transaction_errors custom_500"]
      category_of_code_result [OF t e, of tested_decoder]
    by (simp add: m1 m2 m3 m4)
qed

theorem unregistered_2023_counterexample:
  "extractErrorCode ''Error Code 2023'' = Some 2023
   \<and> errorCodes (constructor tested_error_codes tested_transaction_errors only_custom) 2023 = None
   \<and> parseError (constructor tested_error_codes tested_transaction_errors only_custom) no_objects (JString ''Error Code 2023'') =
       Normal \<lparr>code = Some 2023, errorType = None,
         message = ''Move Error Code 2023: Unknown error occurred'',
         isKnownError = False, category = move_abort,
         originalError = JString ''Error Code 2023''\<rparr>
   \<and> map_completion category
        (parseError (constructor tested_error_codes tested_transaction_errors only_custom) no_objects (JString ''Error Code 2023''))
       \<noteq> Normal sui_system"
proof -
  have c: "extractErrorCode ''Error Code 2023'' = Some 2023"
    by code_simp
  have u: "errorCodes (constructor tested_error_codes tested_transaction_errors only_custom) 2023 = None"
    by code_simp
  have n: "show_int 2023 = ''2023''"
    by code_simp
  have p: "parseError (constructor tested_error_codes tested_transaction_errors only_custom) no_objects (JString ''Error Code 2023'') =
       Normal \<lparr>code = Some 2023, errorType = None,
         message = ''Move Error Code 2023: Unknown error occurred'',
         isKnownError = False, category = move_abort,
         originalError = JString ''Error Code 2023''\<rparr>"
    using c u by (simp add: parseError_def extractErrorString_def parse_string_def n)
  show ?thesis
    using c u p by simp
qed


section \<open>Results on the registry\<close>

text \<open>
  C8. With \<open>includeDefaults = false\<close> the merged tables are the custom tables, whatever the
  default tables hold; so with \<open>customErrorCodes = {9999: "x"}\<close> the code 1000 is not
  known and the code 9999 is.
\<close>

theorem defaults_excluded:
  "errorCodes (constructor D T \<lparr>opt_customErrorCodes = Some cc,
        opt_customTransactionErrors = Some ct, opt_includeDefaults = Some False\<rparr>) = cc
   \<and> getErrorCodes (constructor D T \<lparr>opt_customErrorCodes = Some cc,
        opt_customTransactionErrors = Some ct, opt_includeDefaults = Some False\<rparr>) = cc
   \<and> transactionErrors (constructor D T \<lparr>opt_customErrorCodes = Some cc,
        opt_customTransactionErrors = Some ct, opt_includeDefaults = Some False\<rparr>) = ct
   \<and> \<not> isKnownErrorCode (constructor D T \<lparr>opt_customErrorCodes = Some [9999 \<mapsto> ''x''],
        opt_customTransactionErrors = cto, opt_includeDefaults = Some False\<rparr>) 1000
   \<and> isKnownErrorCode (constructor D T \<lparr>opt_customErrorCodes = Some [9999 \<mapsto> ''x''],
        opt_customTransactionErrors = cto, opt_includeDefaults = Some False\<rparr>) 9999"
  by (simp add: constructor_def getErrorCodes_def isKnownErrorCode_def Let_def)

text \<open>
  C9. A code \<open>N\<close> registered with the empty message, by the constructor or by
  \<open>addErrorCodes\<close>, is a known code for \<open>isKnownErrorCode\<close>, has no message for
  \<open>getErrorMessage\<close>, and is parsed as an unknown code: \<open>isKnownError = false\<close> and the
  message \<open>Move Error Code N: Unknown error occurred\<close>.
\<close>

theorem empty_message_code:
  assumes "cc N = Some []"
    and "d = constructor D T \<lparr>opt_customErrorCodes = Some cc, opt_customTransactionErrors = cto,
                              opt_includeDefaults = incl\<rparr>
         \<or> d = addErrorCodes cc d0"
    and "extractErrorString h error = Normal (JString s)"
    and "extractErrorCode s = Some N"
  shows "isKnownErrorCode d N \<and> getErrorMessage d N = None
    \<and> parseError d h error =
        Normal \<lparr>code = Some N, errorType = None,
          message = ''Move Error Code '' @ show_int N @ '': Unknown error occurred'',
          isKnownError = False, category = move_abort, originalError = error\<rparr>"
proof -
  have reg: "errorCodes d N = Some []"
    using assms(1,2)
    by (auto simp: constructor_def addErrorCodes_def Let_def split: option.splits)
  then have "isKnownErrorCode d N" and g: "getErrorMessage d N = None"
    by (auto simp: isKnownErrorCode_def getErrorMessage_def or_null_def)
  moreover have "parseError d h error =
        Normal \<lparr>code = Some N, errorType = None,
          message = ''Move Error Code '' @ show_int N @ '': Unknown error occurred'',
          isKnownError = False, category = move_abort, originalError = error\<rparr>"
    using assms(3,4) g by (simp add: parseError_string parse_string_code)
  ultimately show ?thesis by simp
qed

theorem empty_message_code_witness:
  "isKnownErrorCode (addErrorCodes [1001 \<mapsto> []] tested_decoder) 1001
   \<and> getErrorMessage (addErrorCodes [1001 \<mapsto> []] tested_decoder) 1001 = None
   \<and> parseError (addErrorCodes [1001 \<mapsto> []] tested_decoder) no_objects
        (JString ''Error with code 1001'') =
       Normal \<lparr>code = Some 1001, errorType = None,
         message = ''Move Error Code 1001: Unknown error occurred'',
         isKnownError = False, category = move_abort,
         originalError = JString ''Error with code 1001''\<rparr>"
proof -
  let ?s = "''Error with code 1001''"
  have r: "[1001 \<mapsto> []] (1001::int) = Some ([]::string)"
    by simp
  have s: "extractErrorString no_objects (JString ?s) = Normal (JString ?s)"
    by (simp add: extractErrorString_def)
  have c: "extractErrorCode ?s = Some 1001"
    by code_simp
  have n: "show_int 1001 = ''1001''"
    by code_simp
  show ?thesis
    using empty_message_code [where cc = "[1001 \<mapsto> []]" and N = 1001
        and d = "addErrorCodes [1001 \<mapsto> []] tested_decoder" and ?d0.0 = tested_decoder
        and h = no_objects and error = "JString ?s" and s = ?s] r s c
    by (simp add: n)
qed


text \<open>
  C3. A custom entry given to the constructor is in the custom table and in the merged
  table, also where the default table defines the same key. In any decoder state, an entry
  of the custom table is in the merged table after \<open>updateDefaultErrorCodes\<close> with any new
  default table, so that \<open>getErrorCodes\<close>, \<open>getErrorMessage\<close> and \<open>parseError\<close> answer with
  the custom message; and neither refresh changes the custom tables, so this holds after
  any number of refreshes. The same holds for the symbolic types and
  \<open>updateDefaultTransactionErrors\<close>.
\<close>

theorem custom_entry_survives_refresh:
  fixes D :: ErrorCodeMap and T :: TransactionErrorMap and cco cto incl
  defines "d0 \<equiv> constructor D T \<lparr>opt_customErrorCodes = cco,
                 opt_customTransactionErrors = cto, opt_includeDefaults = incl\<rparr>"
  shows "(cco = Some cc \<and> cc k = Some v \<longrightarrow>
            customErrorCodes d0 k = Some v \<and> errorCodes d0 k = Some v)
    \<and> (customErrorCodes d k = Some v \<longrightarrow>
            errorCodes (updateDefaultErrorCodes nd d) k = Some v
          \<and> getErrorCodes (updateDefaultErrorCodes nd d) k = Some v
          \<and> (v \<noteq> [] \<longrightarrow> getErrorMessage (updateDefaultErrorCodes nd d) k = Some v)
          \<and> (v \<noteq> [] \<and> extractErrorString h error = Normal (JString s)
               \<and> extractErrorCode s = Some k \<longrightarrow>
                map_completion message (parseError (updateDefaultErrorCodes nd d) h error)
                  = Normal (''Error Code '' @ show_int k @ '': '' @ v)))
    \<and> customErrorCodes (updateDefaultErrorCodes nd d) = customErrorCodes d
    \<and> customErrorCodes (updateDefaultTransactionErrors nt d) = customErrorCodes d
    \<and> (cto = Some ct \<and> lookup ct t = Some m \<longrightarrow>
            lookup (customTransactionErrors d0) t = Some m
          \<and> lookup (transactionErrors d0) t = Some m)
    \<and> (lookup (customTransactionErrors d) t = Some m \<longrightarrow>
            lookup (transactionErrors (updateDefaultTransactionErrors nt d)) t = Some m
          \<and> (t, m) \<in> set (getTransactionErrors (updateDefaultTransactionErrors nt d)))
    \<and> customTransactionErrors (updateDefaultTransactionErrors nt d) = customTransactionErrors d
    \<and> customTransactionErrors (updateDefaultErrorCodes nd d) = customTransactionErrors d"
proof -
  have built: "cco = Some cc \<and> cc k = Some v \<longrightarrow>
      customErrorCodes d0 k = Some v \<and> errorCodes d0 k = Some v"
    by (cases incl) (auto simp: d0_def constructor_def Let_def)
  have refreshed: "errorCodes (updateDefaultErrorCodes nd d) k = Some v"
    if "customErrorCodes d k = Some v"
    using that by (simp add: updateDefaultErrorCodes_def)
  have msg: "getErrorMessage (updateDefaultErrorCodes nd d) k = Some v"
    if "customErrorCodes d k = Some v" and "v \<noteq> []"
    using refreshed that by (simp add: getErrorMessage_def or_null_def)
  have parsed: "map_completion message (parseError (updateDefaultErrorCodes nd d) h error)
        = Normal (''Error Code '' @ show_int k @ '': '' @ v)"
    if "customErrorCodes d k = Some v" and "v \<noteq> []"
      and "extractErrorString h error = Normal (JString s)" and "extractErrorCode s = Some k"
    using msg that by (simp add: parseError_string parse_string_code)
  have types_built: "cto = Some ct \<and> lookup ct t = Some m \<longrightarrow>
      lookup (customTransactionErrors d0) t = Some m \<and> lookup (transactionErrors d0) t = Some m"
    by (cases incl) (auto simp: d0_def constructor_def Let_def lookup_spread2)
  have types_refreshed:
    "lookup (transactionErrors (updateDefaultTransactionErrors nt d)) t = Some m"
    if "lookup (customTransactionErrors d) t = Some m"
    using that by (simp add: updateDefaultTransactionErrors_def lookup_spread2)
  then have listed:
    "(t, m) \<in> set (getTransactionErrors (updateDefaultTransactionErrors nt d))"
    if "lookup (customTransactionErrors d) t = Some m"
    using that by (simp add: getTransactionErrors_def lookup_in_entries)
  have frame: "customErrorCodes (updateDefaultErrorCodes nd d) = customErrorCodes d"
    "customErrorCodes (updateDefaultTransactionErrors nt d) = customErrorCodes d"
    "customTransactionErrors (updateDefaultTransactionErrors nt d) = customTransactionErrors d"
    "customTransactionErrors (updateDefaultErrorCodes nd d) = customTransactionErrors d"
    by (simp_all add: updateDefaultErrorCodes_def updateDefaultTransactionErrors_def)
  have codes: "customErrorCodes d k = Some v \<longrightarrow>
            errorCodes (updateDefaultErrorCodes nd d) k = Some v
          \<and> getErrorCodes (updateDefaultErrorCodes nd d) k = Some v
          \<and> (v \<noteq> [] \<longrightarrow> getErrorMessage (updateDefaultErrorCodes nd d) k = Some v)
          \<and> (v \<noteq> [] \<and> extractErrorString h error = Normal (JString s)
               \<and> extractErrorCode s = Some k \<longrightarrow>
                map_completion message (parseError (updateDefaultErrorCodes nd d) h error)
                  = Normal (''Error Code '' @ show_int k @ '': '' @ v))"
    using refreshed msg parsed by (simp add: getErrorCodes_def)
  have types: "lookup (customTransactionErrors d) t = Some m \<longrightarrow>
            lookup (transactionErrors (updateDefaultTransactionErrors nt d)) t = Some m
          \<and> (t, m) \<in> set (getTransactionErrors (updateDefaultTransactionErrors nt d))"
    using types_refreshed listed by simp
  show ?thesis
    using built codes frame types_built types by blast
qed

theorem custom_entry_survives_refresh_witness:
  "tested_error_codes 1000 = Some ''Unknown verification error''
   \<and> errorCodes (constructor tested_error_codes tested_transaction_errors
        \<lparr>opt_customErrorCodes = Some [1000 \<mapsto> ''A''],
         opt_customTransactionErrors = None, opt_includeDefaults = None\<rparr>) 1000 = Some ''A''
   \<and> getErrorMessage (updateDefaultErrorCodes [1000 \<mapsto> ''B'']
        (constructor tested_error_codes tested_transaction_errors
          \<lparr>opt_customErrorCodes = Some [1000 \<mapsto> ''A''],
           opt_customTransactionErrors = None, opt_includeDefaults = None\<rparr>)) 1000 = Some ''A''
   \<and> map_completion message (parseError (updateDefaultErrorCodes [1000 \<mapsto> ''B'']
        (constructor tested_error_codes tested_transaction_errors
          \<lparr>opt_customErrorCodes = Some [1000 \<mapsto> ''A''],
           opt_customTransactionErrors = None, opt_includeDefaults = None\<rparr>))
        no_objects (JString ''Error Code 1000''))
       = Normal ''Error Code 1000: A''
   \<and> lookup (transactionErrors (updateDefaultTransactionErrors [(''INSUFFICIENT_GAS'', ''H'')]
        (constructor tested_error_codes tested_transaction_errors
          \<lparr>opt_customErrorCodes = None,
           opt_customTransactionErrors = Some [(''INSUFFICIENT_GAS'', ''G'')],
           opt_includeDefaults = None\<rparr>))) ''INSUFFICIENT_GAS'' = Some ''G''"
proof -
  let ?s = "''Error Code 1000''"
  let ?d = "constructor tested_error_codes tested_transaction_errors
        \<lparr>opt_customErrorCodes = Some [1000 \<mapsto> ''A''],
         opt_customTransactionErrors = None, opt_includeDefaults = None\<rparr>"
  let ?e = "constructor tested_error_codes tested_transaction_errors
        \<lparr>opt_customErrorCodes = None,
         opt_customTransactionErrors = Some [(''INSUFFICIENT_GAS'', ''G'')],
         opt_includeDefaults = None\<rparr>"
  have l: "lookup [(''INSUFFICIENT_GAS'', ''G'')] ''INSUFFICIENT_GAS'' = Some ''G''"
    by (simp add: lookup_def)
  have s: "extractErrorString no_objects (JString ?s) = Normal (JString ?s)"
    by (simp add: extractErrorString_def)
  have c: "extractErrorCode ?s = Some 1000"
    by code_simp
  have n: "show_int 1000 = ''1000''"
    by code_simp
  have t: "tested_error_codes 1000 = Some ''Unknown verification error''"
    by (simp add: tested_error_codes_def)
  have built: "customErrorCodes ?d 1000 = Some ''A'' \<and> errorCodes ?d 1000 = Some ''A''"
    using custom_entry_survives_refresh [where cco = "Some [1000 \<mapsto> ''A'']"
        and cc = "[1000 \<mapsto> ''A'']" and k = 1000 and v = "''A''" and cto = None and incl = None
        and D = tested_error_codes and T = tested_transaction_errors]
    by simp
  have codes: "getErrorMessage (updateDefaultErrorCodes [1000 \<mapsto> ''B''] ?d) 1000 = Some ''A''
      \<and> map_completion message (parseError (updateDefaultErrorCodes [1000 \<mapsto> ''B''] ?d)
            no_objects (JString ?s)) = Normal ''Error Code 1000: A''"
    using custom_entry_survives_refresh [where d = ?d and k = 1000 and v = "''A''"
        and nd = "[1000 \<mapsto> ''B'']" and h = no_objects and error = "JString ?s" and s = ?s]
      built s c
    by (simp add: n)
  have types_built: "lookup (customTransactionErrors ?e) ''INSUFFICIENT_GAS'' = Some ''G''"
    using custom_entry_survives_refresh [where cto = "Some [(''INSUFFICIENT_GAS'', ''G'')]"
        and ct = "[(''INSUFFICIENT_GAS'', ''G'')]" and t = "''INSUFFICIENT_GAS''" and m = "''G''"
        and cco = None and incl = None
        and D = tested_error_codes and T = tested_transaction_errors] l
    by simp
  have types: "lookup (transactionErrors
        (updateDefaultTransactionErrors [(''INSUFFICIENT_GAS'', ''H'')] ?e))
        ''INSUFFICIENT_GAS'' = Some ''G''"
    using custom_entry_survives_refresh [where d = ?e and t = "''INSUFFICIENT_GAS''"
        and m = "''G''" and nt = "[(''INSUFFICIENT_GAS'', ''H'')]"] types_built
    by simp
  show ?thesis
    using t built codes types by simp
qed


section \<open>Results on negative numbers\<close>

lemma parse_string_no_code:
  assumes "extractErrorCode s = None"
  shows "parse_string d error s =
     (case findPatternMatch d s of
        Throw e \<Rightarrow> Throw e
      | Unmodelled \<Rightarrow> Unmodelled
      | Normal (Some pm) \<Rightarrow>
          Normal \<lparr>code = None, errorType = errorType pm, message = message pm,
                   isKnownError = True, category = category pm, originalError = error\<rparr>
      | Normal None \<Rightarrow>
          Normal \<lparr>code = None, errorType = None,
                   message = (if s \<noteq> [] then s else ''An unexpected error occurred''),
                   isKnownError = False, category = unknown, originalError = error\<rparr>)"
proof -
  have types: "code pm = None \<and> isKnownError pm" if "scan_types es s = Normal (Some pm)" for es pm
    using that by (induction es) (auto split: completion.splits if_splits)
  have matchers: "code pm = None \<and> isKnownError pm" if "scan_matchers ms s = Some pm" for ms pm
    using that by (induction ms) (auto split: if_splits)
  have "code pm = None \<and> isKnownError pm" if "findPatternMatch d s = Normal (Some pm)" for pm
    using that types matchers
    by (auto simp: findPatternMatch_def split: completion.splits option.splits)
  then show ?thesis
    using assms by (auto simp: parse_string_def split: completion.splits option.splits)
qed

text \<open>
  An input that the theorem below leaves aside: in a \<open>MoveAbort\<close> frame the lazy pattern
  \<open>/MoveAbort.*?(\d+)\)/\<close> steps over the minus sign and captures the digits after it.
\<close>

lemma MoveAbort_minus: "extractErrorCode ''MoveAbort(0x2, -5) in command 0'' = Some 5"
  by code_simp

text \<open>
  C6, as the code has it. \<open>extractErrorCode\<close> never returns a negative integer. For every
  string in which each number carries a minus sign and which has no \<open>MoveAbort\<close> frame, such
  as \<open>Error with code -1000\<close>, it returns none; and whenever it returns none, \<open>parseError\<close>
  returns a result without a code, whose category is \<open>unknown\<close> when neither a registered
  symbolic type nor a pattern rule matches the string, and the category of the matching
  rule otherwise.
\<close>

theorem negative_numbers_not_extracted:
  "(extractErrorCode s = Some c \<longrightarrow> 0 \<le> c)
   \<and> (numbers_negative None s \<and> \<not> String_includes s ''MoveAbort'' \<longrightarrow>
         extractErrorCode s = None)
   \<and> (extractErrorString h error = Normal (JString s) \<and> extractErrorCode s = None \<longrightarrow>
         (findPatternMatch d s = Normal None \<longrightarrow>
            parseError d h error =
              Normal \<lparr>code = None, errorType = None,
                message = (if s \<noteq> [] then s else ''An unexpected error occurred''),
                isKnownError = False, category = unknown, originalError = error\<rparr>)
       \<and> (findPatternMatch d s = Normal (Some pm) \<longrightarrow>
            parseError d h error =
              Normal \<lparr>code = None, errorType = errorType pm, message = message pm,
                isKnownError = True, category = category pm, originalError = error\<rparr>))"
proof -
  have "0 \<le> c" if "extractErrorCode s = Some c"
    using that by (simp add: extractErrorCode_def extract_loop_nonneg)
  moreover have "extractErrorCode s = None"
    if "numbers_negative None s" and "\<not> String_includes s ''MoveAbort''"
    using that by (rule extract_none_of_negative)
  moreover have "parseError d h error =
        (case findPatternMatch d s of
          Throw e \<Rightarrow> Throw e
        | Unmodelled \<Rightarrow> Unmodelled
        | Normal (Some pm) \<Rightarrow>
            Normal \<lparr>code = None, errorType = errorType pm, message = message pm,
                     isKnownError = True, category = category pm, originalError = error\<rparr>
        | Normal None \<Rightarrow>
            Normal \<lparr>code = None, errorType = None,
                     message = (if s \<noteq> [] then s else ''An unexpected error occurred''),
                     isKnownError = False, category = unknown, originalError = error\<rparr>)"
    if "extractErrorString h error = Normal (JString s)" and "extractErrorCode s = None"
    using that by (simp add: parseError_string parse_string_no_code)
  ultimately show ?thesis by simp
qed

theorem negative_numbers_not_extracted_witness:
  "numbers_negative None ''Error with code -1000''
   \<and> \<not> String_includes ''Error with code -1000'' ''MoveAbort''
   \<and> extractErrorCode ''Error with code -1000'' = None
   \<and> findPatternMatch tested_decoder ''Error with code -1000'' = Normal None
   \<and> parseError tested_decoder no_objects (JString ''Error with code -1000'') =
       Normal \<lparr>code = None, errorType = None, message = ''Error with code -1000'',
         isKnownError = False, category = unknown,
         originalError = JString ''Error with code -1000''\<rparr>
   \<and> (0::int) \<le> 1001"
proof -
  let ?s = "''Error with code -1000''"
  have g: "numbers_negative None ?s"
    by code_simp
  have i: "\<not> String_includes ?s ''MoveAbort''"
    by code_simp
  have s: "extractErrorString no_objects (JString ?s) = Normal (JString ?s)"
    by (simp add: extractErrorString_def)
  have f: "findPatternMatch tested_decoder ?s = Normal None"
    by code_simp
  have c: "extractErrorCode ''Error Code 1001'' = Some 1001"
    by code_simp
  have none: "extractErrorCode ?s = None"
    using negative_numbers_not_extracted [where s = ?s] g i by blast
  have "parseError tested_decoder no_objects (JString ?s) =
       Normal \<lparr>code = None, errorType = None, message = ?s,
         isKnownError = False, category = unknown, originalError = JString ?s\<rparr>"
    using negative_numbers_not_extracted [where s = ?s and h = no_objects
        and error = "JString ?s" and d = tested_decoder] s none f
    by simp
  moreover have "(0::int) \<le> 1001"
    using negative_numbers_not_extracted [where s = "''Error Code 1001''" and c = 1001] c
    by blast
  ultimately show ?thesis
    using g i none f by simp
qed

theorem negative_code_counterexample:
  "numbers_negative None ''insufficient gas, code -1''
   \<and> extractErrorCode ''insufficient gas, code -1'' = None
   \<and> parseError tested_decoder no_objects (JString ''insufficient gas, code -1'') =
       Normal \<lparr>code = None, errorType = Some ''INSUFFICIENT_GAS'',
         message = ''Transaction Error (INSUFFICIENT_GAS): Insufficient gas.'',
         isKnownError = True, category = transaction,
         originalError = JString ''insufficient gas, code -1''\<rparr>
   \<and> map_completion category
        (parseError tested_decoder no_objects (JString ''insufficient gas, code -1''))
       \<noteq> Normal unknown"
proof -
  let ?s = "''insufficient gas, code -1''"
  have g: "numbers_negative None ?s"
    by code_simp
  have c: "extractErrorCode ?s = None"
    by code_simp
  have f: "findPatternMatch tested_decoder ?s =
      Normal (Some \<lparr>code = None, errorType = Some ''INSUFFICIENT_GAS'',
        message = ''Transaction Error (INSUFFICIENT_GAS): Insufficient gas.'',
        isKnownError = True, category = transaction\<rparr>)"
    by code_simp
  have p: "parseError tested_decoder no_objects (JString ?s) =
       Normal \<lparr>code = None, errorType = Some ''INSUFFICIENT_GAS'',
         message = ''Transaction Error (INSUFFICIENT_GAS): Insufficient gas.'',
         isKnownError = True, category = transaction, originalError = JString ?s\<rparr>"
    using c f by (simp add: parseError_def extractErrorString_def parse_string_def)
  show ?thesis
    using g c p by simp
qed


section \<open>Results on exceptions\<close>


lemma findPatternMatch_reaches:
  assumes "Object_entries (transactionErrors d) = pre @ (k, m) # post"
    and "unbalanced_key k"
    and "list_all (\<lambda>(t, m). regex_safe t
            \<and> \<not> RegExp_test (rx ([WordBoundary] @ lit t @ [WordBoundary])) s) pre"
  shows "findPatternMatch d s = Throw SyntaxError"
  using scan_types_reaches [OF assms(3,2), of m post] assms(1)
  by (simp add: findPatternMatch_def)

lemma findPatternMatch_compiles:
  assumes "list_all (\<lambda>(t, m). compiles t) (Object_entries (transactionErrors d))"
  shows "\<exists>r. findPatternMatch d s = Normal r"
proof -
  obtain r where "scan_types (Object_entries (transactionErrors d)) s = Normal r"
    using scan_types_compiles [OF assms] by blast
  then show ?thesis
    by (cases r) (simp_all add: findPatternMatch_def)
qed

lemma findPatternMatch_safe:
  assumes "list_all (\<lambda>(t, m). regex_safe t) (Object_entries (transactionErrors d))"
  shows "\<exists>r. findPatternMatch d s = Normal r"
  by (rule findPatternMatch_compiles) (use assms in \<open>auto simp: list_all_iff compiles_safe\<close>)

lemma type_RegExp_empty_input:
  "\<not> RegExp_test (rx (WordBoundary # lit t @ [WordBoundary])) []"
  by (simp add: RegExp_test_def String_match_def rx_def at_word_boundary_def)




text \<open>
  C2 fails on the code for an input whose \<open>toString\<close> member throws: the call of
  \<open>error.toString()\<close> in \<open>extractErrorString\<close> stands before the \<open>try\<close> block, and the
  exception leaves \<open>parseError\<close>. It fails as well when \<open>toString\<close> returns something that is
  not a string, here the number 42: \<open>extractErrorString\<close> hands the number on, and
  \<open>errorString.match\<close> is not a function. Both hold for every decoder.
\<close>

theorem parseError_throws_on_toString:
  "parseError d (no_objects(0 := object_with_toString Raises)) (JObject 0) = Throw UserException
   \<and> parseError d (no_objects(0 := object_with_toString (Returns (JNumber 42)))) (JObject 0)
       = Throw TypeError"
  by (simp add: parseError_def extractErrorString_def object_with_toString_def Get_def
      truthy_string_def nullish_def)

text \<open>
  What holds instead: when every object of the heap is benign (object literals with data
  properties, self-referential ones included, arrays of primitives, \<open>Error\<close> instances) and
  the registered keys are free of regular-expression syntax, \<open>parseError\<close> returns a result
  that carries the input, for \<open>null\<close>, \<open>undefined\<close>, strings, numbers and every other value.
\<close>

lemma extractErrorString_benign:
  assumes "\<forall>a. benign (h a)"
  shows "\<exists>s. extractErrorString h v = Normal (JString s)"
proof (cases v)
  case (JObject a)
  have get: "\<exists>y. Get h c p = Normal y" if "\<not> nullish c" for c p
  proof (cases c)
    case (JObject b)
    have "properties (h b) p \<noteq> Some Raises"
      using assms by (simp add: benign_def)
    then show ?thesis
      using JObject by (cases "properties (h b) p") (auto simp: Get_def split: outcome.splits)
  qed (use that in \<open>simp_all add: Get_def nullish_def\<close>)
  obtain m where m: "Get h v ''message'' = Normal m"
    using get [of v] JObject by (auto simp: nullish_def)
  obtain c where c: "Get h v ''cause'' = Normal c"
    using get [of v] JObject by (auto simp: nullish_def)
  obtain cm where cm: "(if nullish c then Normal JUndefined else Get h c ''message'') = Normal cm"
    using get [of c] by (cases "nullish c") auto
  have ts: "toString_method (h a) = None \<or> (\<exists>s. toString_method (h a) = Some (Returns (JString s)))"
    using assms [rule_format, of a]
    by (auto simp: benign_def split: option.splits outcome.splits jsval.splits)
  have str: "\<exists>s. x = JString s" if "truthy_string x" for x
    using that by (cases x) (simp_all add: truthy_string_def)
  show ?thesis
  proof (cases "is_function (h a)")
    case True
    then show ?thesis using JObject by (simp add: extractErrorString_def)
  next
    case False
    show ?thesis
    proof (cases "truthy_string m")
      case True
      then show ?thesis
        using JObject False m str [of m] by (auto simp: extractErrorString_def)
    next
      case nm: False
      show ?thesis
      proof (cases "truthy_string cm")
        case True
        then show ?thesis
          using JObject False m nm c cm str [of cm] by (auto simp: extractErrorString_def)
      next
        case ncm: False
        show ?thesis
          using JObject False m nm c cm ncm ts by (auto simp: extractErrorString_def)
      qed
    qed
  qed
qed (simp_all add: extractErrorString_def)

lemma parseError_returns_benign:
  assumes "\<forall>a. benign (h a)"
    and "list_all (\<lambda>(t, m). regex_safe t) (Object_entries (transactionErrors d))"
  shows "\<exists>r. parseError d h v = Normal r \<and> originalError r = v"
proof -
  obtain s where s: "extractErrorString h v = Normal (JString s)"
    using extractErrorString_benign [OF assms(1)] by blast
  show ?thesis
  proof (cases "extractErrorCode s")
    case None
    obtain r where "findPatternMatch d s = Normal r"
      using findPatternMatch_safe [OF assms(2)] by blast
    then show ?thesis
      using s None by (cases r) (simp_all add: parseError_string parse_string_no_code)
  next
    case (Some c)
    then show ?thesis
      using s by (simp add: parseError_string parse_string_code)
  qed
qed







section \<open>Results on the transaction-failure patterns\<close>

text \<open>
  The pattern table is built by the constructor and no method assigns it again.
\<close>

lemma PATTERN_MATCHERS_fixed:
  "PATTERN_MATCHERS (addTransactionErrors n d) = PATTERN_MATCHERS d"
  "PATTERN_MATCHERS (updateDefaultTransactionErrors n d) = PATTERN_MATCHERS d"
  "PATTERN_MATCHERS (addErrorCodes c d) = PATTERN_MATCHERS d"
  "PATTERN_MATCHERS (updateDefaultErrorCodes c d) = PATTERN_MATCHERS d"
  by (simp_all add: addTransactionErrors_def updateDefaultTransactionErrors_def
      addErrorCodes_def updateDefaultErrorCodes_def)

text \<open>
  C4 fails on the code. The message of a transaction-failure pattern is a template literal
  that the constructor evaluates once. After \<open>addTransactionErrors\<close> or
  \<open>updateDefaultTransactionErrors\<close> has changed the message registered for
  \<open>INSUFFICIENT_GAS\<close>, an input that matches \<open>/insufficient.*gas/i\<close> and no earlier rule still
  gets the message that was registered when the decoder was constructed.
\<close>

theorem pattern_message_is_stale:
  "lookup (transactionErrors
       (addTransactionErrors [(''INSUFFICIENT_GAS'', ''Out of gas'')] tested_decoder))
     ''INSUFFICIENT_GAS'' = Some ''Out of gas''
   \<and> parseError (addTransactionErrors [(''INSUFFICIENT_GAS'', ''Out of gas'')] tested_decoder)
       no_objects (JString ''Transaction failed due to insufficient gas budget'') =
      Normal \<lparr>code = None, errorType = Some ''INSUFFICIENT_GAS'',
        message = ''Transaction Error (INSUFFICIENT_GAS): Insufficient gas.'',
        isKnownError = True, category = transaction,
        originalError = JString ''Transaction failed due to insufficient gas budget''\<rparr>
   \<and> lookup (transactionErrors
       (updateDefaultTransactionErrors [(''INSUFFICIENT_GAS'', ''Updated gas error'')]
          tested_decoder))
     ''INSUFFICIENT_GAS'' = Some ''Updated gas error''
   \<and> parseError
       (updateDefaultTransactionErrors [(''INSUFFICIENT_GAS'', ''Updated gas error'')]
          tested_decoder)
       no_objects (JString ''Transaction failed due to insufficient gas budget'') =
      Normal \<lparr>code = None, errorType = Some ''INSUFFICIENT_GAS'',
        message = ''Transaction Error (INSUFFICIENT_GAS): Insufficient gas.'',
        isKnownError = True, category = transaction,
        originalError = JString ''Transaction failed due to insufficient gas budget''\<rparr>"
proof -
  let ?s = "''Transaction failed due to insufficient gas budget''"
  let ?a = "addTransactionErrors [(''INSUFFICIENT_GAS'', ''Out of gas'')] tested_decoder"
  let ?u = "updateDefaultTransactionErrors [(''INSUFFICIENT_GAS'', ''Updated gas error'')]
              tested_decoder"
  let ?r = "\<lparr>code = None, errorType = Some ''INSUFFICIENT_GAS'',
        message = ''Transaction Error (INSUFFICIENT_GAS): Insufficient gas.'',
        isKnownError = True, category = transaction\<rparr>"
  have la: "lookup (transactionErrors ?a) ''INSUFFICIENT_GAS'' = Some ''Out of gas''"
    by code_simp
  have lu: "lookup (transactionErrors ?u) ''INSUFFICIENT_GAS'' = Some ''Updated gas error''"
    by code_simp
  have c: "extractErrorCode ?s = None"
    by code_simp
  have fa: "findPatternMatch ?a ?s = Normal (Some ?r)"
    by code_simp
  have fu: "findPatternMatch ?u ?s = Normal (Some ?r)"
    by code_simp
  have s: "extractErrorString no_objects (JString ?s) = Normal (JString ?s)"
    by (simp add: extractErrorString_def)
  show ?thesis
    using la lu c fa fu s by (simp add: parseError_string parse_string_no_code)
qed








section \<open>The matcher on inputs from the repository's tests\<close>

text \<open>
  The abort frame of the test suite: the first two patterns fail on the nested parentheses
  and braces, and the lazy third pattern finds the first run of digits that a closing
  parenthesis follows.
\<close>

lemma abort_frame_patterns:
  "map (String_match
      (''MoveAbort(MoveLocation { module: ModuleId { address: 0x123, name: Identifier(''
        @ [CHR 0x22] @ ''pool'' @ [CHR 0x22]
        @ '') }, function: 1, code_offset: 42 }, 1001) in command 0''))
     (take 3 code_patterns) = [None, None, Some (Some ''1001'')]"
  by code_simp

text \<open>
  The underscore is a word character, so the key \<open>GAS\<close> does not match inside
  \<open>INSUFFICIENT_GAS\<close>, and the scan is case-sensitive.
\<close>

lemma type_scan_whole_token:
  "scan_types [(''GAS'', ''g''), (''INSUFFICIENT_GAS'', ''i'')] ''insufficient_gas INSUFFICIENT_GAS!'' =
     Normal (Some \<lparr>code = None, errorType = Some ''INSUFFICIENT_GAS'',
       message = ''Transaction Error (INSUFFICIENT_GAS): i'', isKnownError = True,
       category = transaction\<rparr>)"
  by code_simp

text \<open>Keys that are array indices come first in \<open>Object.entries\<close>, in numeric order.\<close>

lemma entries_order:
  "Object_entries [(''b'', ''1''), (''10'', ''x''), (''a'', ''2''), (''9'', ''y''), (''b'', ''3''),
      (''01'', ''z'')] =
     [(''9'', ''y''), (''10'', ''x''), (''b'', ''3''), (''a'', ''2''), (''01'', ''z'')]"
  by code_simp

text \<open>
  Inputs of the test suite that are not strings: \<open>null\<close>, the number 123, the empty object
  and an object that refers to itself.
\<close>

lemma non_string_inputs:
  "map_completion message (parseError tested_decoder no_objects JNull)
     = Normal ''An unexpected error occurred''"
  "map_completion message (parseError tested_decoder no_objects (JNumber 123)) = Normal ''123''"
  "map_completion message (parseError tested_decoder no_objects (JObject 0))
     = Normal ''[object Object]''"
  "parseError tested_decoder
     (no_objects(0 := plain_object [''message'' \<mapsto> JString ''Circular error'',
                                    ''self'' \<mapsto> JObject 0]))
     (JObject 0) =
     Normal \<lparr>code = None, errorType = None, message = ''Circular error'', isKnownError = False,
       category = unknown, originalError = JObject 0\<rparr>"
  by code_simp+

end
